theory Spec2Isabelle
  imports Complex_Main "HOL-Library.Sublist"
begin

section \<open>Go values shared by all components\<close>

text \<open>
  A Go \<^verbatim>\<open>error\<close> is a value carrying a message; \<^verbatim>\<open>nil\<close> is \<open>None\<close> of
  \<open>error option\<close>. Functions that return \<^verbatim>\<open>(string, error)\<close> are pairs, because the
  callers in this repository read the string even when the error is set.
\<close>

datatype error = Errorf string

fun Error_msg :: "error \<Rightarrow> string" where
  "Error_msg (Errorf m) = m"

section \<open>The Go standard library functions the code relies on\<close>

text \<open>
  Go strings are byte sequences, here \<open>char list\<close>. The path functions are those of
  \<^verbatim>\<open>path/filepath\<close> with the separator \<^verbatim>\<open>/\<close>. \<^verbatim>\<open>strings.ToLower\<close> and
  \<^verbatim>\<open>strings.TrimSpace\<close> are modelled on ASCII.
\<close>

definition HasPrefix :: "string \<Rightarrow> string \<Rightarrow> bool" where
  "HasPrefix s pre = prefix pre s"

definition HasSuffix :: "string \<Rightarrow> string \<Rightarrow> bool" where
  "HasSuffix s suf = prefix (rev suf) (rev s)"

definition TrimPrefix :: "string \<Rightarrow> string \<Rightarrow> string" where
  "TrimPrefix s pre = (if HasPrefix s pre then drop (length pre) s else s)"

definition TrimSuffix :: "string \<Rightarrow> string \<Rightarrow> string" where
  "TrimSuffix s suf = (if HasSuffix s suf then take (length s - length suf) s else s)"

text \<open>
  \<open>Cut sep s\<close> splits \<open>s\<close> around the first occurrence of \<open>sep\<close>
  (\<^verbatim>\<open>strings.Cut\<close>); the other string functions are built on it.
\<close>

fun Cut :: "string \<Rightarrow> string \<Rightarrow> (string \<times> string) option" where
  "Cut sep [] = (if sep = [] then Some ([], []) else None)"
| "Cut sep (c # t) =
     (if prefix sep (c # t) then Some ([], drop (length sep) (c # t))
      else map_option (\<lambda>(a, b). (c # a, b)) (Cut sep t))"

definition Contains :: "string \<Rightarrow> string \<Rightarrow> bool" where
  "Contains s sub = (Cut sub s \<noteq> None)"

text \<open>\<^verbatim>\<open>strings.SplitN(s, sep, 2)\<close> for a non-empty separator.\<close>

definition SplitN2 :: "string \<Rightarrow> string \<Rightarrow> string list" where
  "SplitN2 s sep = (case Cut sep s of None \<Rightarrow> [s] | Some (a, b) \<Rightarrow> [a, b])"

text \<open>\<^verbatim>\<open>strings.Replace(s, old, new, 1)\<close> for a non-empty \<open>old\<close>.\<close>

definition Replace1 :: "string \<Rightarrow> string \<Rightarrow> string \<Rightarrow> string" where
  "Replace1 s old new = (case Cut old s of None \<Rightarrow> s | Some (a, b) \<Rightarrow> a @ new @ b)"

lemma Cut_shorter: "Cut sep s = Some (a, b) \<Longrightarrow> sep \<noteq> [] \<Longrightarrow> length b < length s"
proof (induction s arbitrary: a)
  case Nil
  then show ?case by simp
next
  case (Cons c t)
  show ?case
  proof (cases "prefix sep (c # t)")
    case True
    with Cons.prems show ?thesis by auto
  next
    case False
    with Cons.prems obtain a' where "Cut sep t = Some (a', b)"
      by (auto split: prod.splits)
    with Cons.IH Cons.prems(2) show ?thesis by fastforce
  qed
qed

text \<open>\<^verbatim>\<open>strings.Split(s, sep)\<close> for a non-empty separator.\<close>

function Split :: "string \<Rightarrow> string \<Rightarrow> string list" where
  "Split s sep =
     (if sep = [] then [s]
      else case Cut sep s of None \<Rightarrow> [s] | Some (a, b) \<Rightarrow> a # Split b sep)"
  by pat_completeness auto
termination
  by (relation "measure (\<lambda>(s, sep). length s)") (auto dest: Cut_shorter)

definition isSpace :: "char \<Rightarrow> bool" where
  "isSpace c = (c \<in> set [CHR '' '', CHR 0x09, CHR 0x0A, CHR 0x0B, CHR 0x0C, CHR 0x0D])"

definition TrimSpace :: "string \<Rightarrow> string" where
  "TrimSpace s = rev (dropWhile isSpace (rev (dropWhile isSpace s)))"

definition lower_char :: "char \<Rightarrow> char" where
  "lower_char c =
     (case map_of (zip ''ABCDEFGHIJKLMNOPQRSTUVWXYZ'' ''abcdefghijklmnopqrstuvwxyz'') c of
        Some l \<Rightarrow> l
      | None \<Rightarrow> c)"

definition ToLower :: "string \<Rightarrow> string" where
  "ToLower s = map lower_char s"

text \<open>
  \<^verbatim>\<open>filepath.Ext\<close> walks back from the end of the path to the final dot of the final
  element; \<open>Ext_scan\<close> is that loop over the reversed path, \<open>acc\<close> the bytes already passed.
\<close>

fun Ext_scan :: "string \<Rightarrow> string \<Rightarrow> string" where
  "Ext_scan [] acc = []"
| "Ext_scan (c # r) acc =
     (if c = CHR ''/'' then []
      else if c = CHR ''.'' then c # acc
      else Ext_scan r (c # acc))"

definition Ext :: "string \<Rightarrow> string" where
  "Ext path = Ext_scan (rev path) []"

text \<open>\<^verbatim>\<open>filepath.Base\<close>: the last element of the path, trailing separators removed.\<close>

definition Base :: "string \<Rightarrow> string" where
  "Base path =
     (if path = [] then ''.''
      else let stripped = rev (dropWhile (\<lambda>c. c = CHR ''/'') (rev path));
               elem = rev (takeWhile (\<lambda>c. c \<noteq> CHR ''/'') (rev stripped))
           in if elem = [] then ''/'' else elem)"


text \<open>\<^verbatim>\<open>%d\<close> of \<^verbatim>\<open>fmt.Sprintf\<close>.\<close>

definition digit :: "nat \<Rightarrow> char" where
  "digit d = ''0123456789'' ! d"

function decimal :: "nat \<Rightarrow> string" where
  "decimal n = (if n < 10 then [digit n] else decimal (n div 10) @ [digit (n mod 10)])"
  by pat_completeness auto
termination
  by (relation "measure id") auto

definition itoa :: "int \<Rightarrow> string" where
  "itoa i = (if i < 0 then CHR ''-'' # decimal (nat (- i)) else decimal (nat i))"

section \<open>Local metadata database (database/sql over SQLite)\<close>

text \<open>
  The SQL statements issued by the lookups:
  \<^item> \<open>SelectISRC\<close>: \<^verbatim>\<open>SELECT external_id_isrc FROM tracks WHERE id = ? LIMIT 1\<close>
  \<^item> \<open>SelectAlbumRowid\<close>: \<^verbatim>\<open>SELECT rowid FROM albums WHERE name = ? LIMIT 1\<close>
  \<^item> \<open>SelectImageUrl\<close>: \<^verbatim>\<open>SELECT url FROM album_images WHERE album_rowid = ? ORDER BY width DESC LIMIT 1\<close>
  \<^item> \<open>SelectTrackAlbumRowid\<close>: the \<^verbatim>\<open>LIKE\<close> query of \<^verbatim>\<open>GetCoverByTrackFromDatabase\<close>.
\<close>

datatype query = SelectISRC | SelectAlbumRowid | SelectImageUrl | SelectTrackAlbumRowid

datatype sqlarg = SqlText string | SqlInt int

text \<open>
  What \<^verbatim>\<open>db.QueryRow(...).Scan(&x)\<close> can give: the sentinel \<^verbatim>\<open>sql.ErrNoRows\<close>,
  any other error, or the scanned value.
\<close>

datatype 'a scan = ErrNoRows | ScanFailed error | Scanned 'a

text \<open>
  The driver is an external collaborator; its behaviour on a database path is a parameter.
\<close>

record sqlite =
  sql_Open :: "string \<Rightarrow> error option"
  db_Ping :: "string \<Rightarrow> error option"
  QueryRow_text :: "string \<Rightarrow> query \<Rightarrow> sqlarg list \<Rightarrow> string scan"
  QueryRow_int :: "string \<Rightarrow> query \<Rightarrow> sqlarg list \<Rightarrow> int scan"

definition GetISRCFromDatabase :: "sqlite \<Rightarrow> string \<Rightarrow> string \<Rightarrow> string \<times> error option" where
  "GetISRCFromDatabase S databasePath spotifyID =
     (if databasePath = '''' then ('''', None)
      else case sql_Open S databasePath of
        Some e \<Rightarrow> ('''', Some (Errorf (''failed to open database: '' @ Error_msg e)))
      | None \<Rightarrow>
        (case db_Ping S databasePath of
           Some e \<Rightarrow> ('''', Some (Errorf (''failed to connect to database: '' @ Error_msg e)))
         | None \<Rightarrow>
           (case QueryRow_text S databasePath SelectISRC [SqlText spotifyID] of
              ErrNoRows \<Rightarrow> ('''', None)
            | ScanFailed e \<Rightarrow> ('''', Some (Errorf (''database query error: '' @ Error_msg e)))
            | Scanned isrc \<Rightarrow> (isrc, None))))"

definition GetAlbumCoverFromDatabase :: "sqlite \<Rightarrow> string \<Rightarrow> string \<Rightarrow> string \<times> error option" where
  "GetAlbumCoverFromDatabase S databasePath albumName =
     (if databasePath = '''' then ('''', None)
      else case sql_Open S databasePath of
        Some e \<Rightarrow> ('''', Some (Errorf (''failed to open database: '' @ Error_msg e)))
      | None \<Rightarrow>
        (case db_Ping S databasePath of
           Some e \<Rightarrow> ('''', Some (Errorf (''failed to connect to database: '' @ Error_msg e)))
         | None \<Rightarrow>
           (case QueryRow_int S databasePath SelectAlbumRowid [SqlText albumName] of
              ErrNoRows \<Rightarrow> ('''', None)
            | ScanFailed e \<Rightarrow> ('''', Some (Errorf (''failed to query album: '' @ Error_msg e)))
            | Scanned albumRowID \<Rightarrow>
              (case QueryRow_text S databasePath SelectImageUrl [SqlInt albumRowID] of
                 ErrNoRows \<Rightarrow> ('''', None)
               | ScanFailed e \<Rightarrow>
                   ('''', Some (Errorf (''failed to query album image: '' @ Error_msg e)))
               | Scanned coverURL \<Rightarrow> (coverURL, None)))))"

definition GetCoverByTrackFromDatabase ::
  "sqlite \<Rightarrow> string \<Rightarrow> string \<Rightarrow> string \<Rightarrow> string \<times> error option" where
  "GetCoverByTrackFromDatabase S databasePath trackName artistName =
     (if databasePath = '''' then ('''', None)
      else case sql_Open S databasePath of
        Some e \<Rightarrow> ('''', Some (Errorf (''failed to open database: '' @ Error_msg e)))
      | None \<Rightarrow>
        (case db_Ping S databasePath of
           Some e \<Rightarrow> ('''', Some (Errorf (''failed to connect to database: '' @ Error_msg e)))
         | None \<Rightarrow>
           (case QueryRow_int S databasePath SelectTrackAlbumRowid
                   [SqlText trackName, SqlText (''%'' @ artistName @ ''%''),
                    SqlText (artistName @ ''%'')] of
              ErrNoRows \<Rightarrow> ('''', None)
            | ScanFailed e \<Rightarrow> ('''', Some (Errorf (''failed to query track: '' @ Error_msg e)))
            | Scanned albumRowID \<Rightarrow>
              (case QueryRow_text S databasePath SelectImageUrl [SqlInt albumRowID] of
                 ErrNoRows \<Rightarrow> ('''', None)
               | ScanFailed e \<Rightarrow>
                   ('''', Some (Errorf (''failed to query album image: '' @ Error_msg e)))
               | Scanned coverURL \<Rightarrow> (coverURL, None)))))"

section \<open>External cover-art services (\<^verbatim>\<open>backend/cover_sources.go\<close>)\<close>

text \<open>
  The effects of a search that matter for pacing: \<^verbatim>\<open>time.Sleep\<close> (in milliseconds) and
  \<^verbatim>\<open>client.Do\<close> of a request (method and URL). Each search returns the list of its effects
  in the order they happen.
\<close>

datatype io = Sleep nat | HttpDo string string

text \<open>Of the decoded JSON only the fields that the searches read are kept.\<close>

record iTunesSearchResponse =
  ResultCount :: int
  Results :: "string list"  \<comment> \<open>\<^verbatim>\<open>artworkUrl100\<close> of each result\<close>

datatype mb_recording = Recording (Releases: "string list")  \<comment> \<open>the \<^verbatim>\<open>id\<close> of each release\<close>

text \<open>
  The network is an external collaborator. \<open>client_Do\<close> gives the transport error, or the
  status code together with the body (or the error of reading it).
\<close>

record network =
  QueryEscape :: "string \<Rightarrow> string"
  NewRequest :: "string \<Rightarrow> string \<Rightarrow> error option"
  client_Do :: "string \<Rightarrow> string \<Rightarrow> error + nat \<times> (error + string)"
  json_iTunes :: "string \<Rightarrow> error + iTunesSearchResponse"
  json_MusicBrainz :: "string \<Rightarrow> error + mb_recording list"
  json_Deezer :: "string \<Rightarrow> error + string list"  \<comment> \<open>\<^verbatim>\<open>album.cover_xl\<close> of each entry of \<^verbatim>\<open>data\<close>\<close>

definition wrap :: "string \<Rightarrow> error \<Rightarrow> string \<times> error option" where
  "wrap m e = ('''', Some (Errorf (m @ Error_msg e)))"

definition failf :: "string \<Rightarrow> string \<times> error option" where
  "failf m = ('''', Some (Errorf m))"

definition iTunes_read :: "network \<Rightarrow> nat \<times> (error + string) \<Rightarrow> string \<times> error option" where
  "iTunes_read N resp =
     (case resp of (status, body) \<Rightarrow>
        if status \<noteq> 200 then failf (''iTunes API returned status '' @ decimal status)
        else case body of
          Inl e \<Rightarrow> wrap ''failed to read response: '' e
        | Inr b \<Rightarrow>
          (case json_iTunes N b of
             Inl e \<Rightarrow> wrap ''failed to parse response: '' e
           | Inr searchResp \<Rightarrow>
             (if ResultCount searchResp = 0 \<or> Results searchResp = [] then failf ''no results found''
              else let artworkURL = hd (Results searchResp)
                   in if artworkURL = '''' then failf ''no artwork URL in response''
                      else (Replace1 artworkURL ''100x100bb'' ''3000x3000bb'', None))))"

definition SearchITunesForCover ::
  "network \<Rightarrow> string \<Rightarrow> string \<Rightarrow> (string \<times> error option) \<times> io list" where
  "SearchITunesForCover N trackName artistName =
     (if trackName = '''' \<or> artistName = ''''
      then (failf ''track name and artist name are required'', [])
      else
        let apiURL = ''https://itunes.apple.com/search?term=''
                       @ QueryEscape N (trackName @ '' '' @ artistName)
                       @ ''&media=music&entity=song&limit=5''
        in case NewRequest N ''GET'' apiURL of
             Some e \<Rightarrow> (wrap ''failed to create request: '' e, [])
           | None \<Rightarrow>
             (case client_Do N ''GET'' apiURL of
                Inl e \<Rightarrow> (wrap ''iTunes API request failed: '' e, [HttpDo ''GET'' apiURL])
              | Inr resp \<Rightarrow> (iTunes_read N resp, [HttpDo ''GET'' apiURL])))"

definition Deezer_read :: "network \<Rightarrow> nat \<times> (error + string) \<Rightarrow> string \<times> error option" where
  "Deezer_read N resp =
     (case resp of (status, body) \<Rightarrow>
        if status \<noteq> 200 then failf (''Deezer API returned status '' @ decimal status)
        else case body of
          Inl e \<Rightarrow> wrap ''failed to parse response: '' e
        | Inr b \<Rightarrow>
          (case json_Deezer N b of
             Inl e \<Rightarrow> wrap ''failed to parse response: '' e
           | Inr searchData \<Rightarrow>
             (if searchData = [] then failf ''no results found''
              else let coverURL = hd searchData
                   in if coverURL = '''' then failf ''no cover URL in response''
                      else (coverURL, None))))"

definition SearchDeezerForCover ::
  "network \<Rightarrow> string \<Rightarrow> string \<Rightarrow> (string \<times> error option) \<times> io list" where
  "SearchDeezerForCover N trackName artistName =
     (if trackName = '''' \<or> artistName = ''''
      then (failf ''track name and artist name are required'', [])
      else
        let apiURL = ''https://api.deezer.com/search?q=''
                       @ QueryEscape N (trackName @ '' '' @ artistName) @ ''&limit=1''
        in case NewRequest N ''GET'' apiURL of
             Some e \<Rightarrow> (wrap ''failed to create request: '' e, [])
           | None \<Rightarrow>
             (case client_Do N ''GET'' apiURL of
                Inl e \<Rightarrow> (wrap ''Deezer API request failed: '' e, [HttpDo ''GET'' apiURL])
              | Inr resp \<Rightarrow> (Deezer_read N resp, [HttpDo ''GET'' apiURL])))"

text \<open>
  The second half of the MusicBrainz search: the release of the first recording, then a
  \<^verbatim>\<open>HEAD\<close> request to the Cover Art Archive to see that the cover is there.
\<close>

definition MusicBrainz_read ::
  "network \<Rightarrow> nat \<times> (error + string) \<Rightarrow> (string \<times> error option) \<times> io list" where
  "MusicBrainz_read N resp =
     (case resp of (status, body) \<Rightarrow>
        if status \<noteq> 200 then (failf (''MusicBrainz API returned status '' @ decimal status), [])
        else case body of
          Inl e \<Rightarrow> (wrap ''failed to read response: '' e, [])
        | Inr b \<Rightarrow>
          (case json_MusicBrainz N b of
             Inl e \<Rightarrow> (wrap ''failed to parse response: '' e, [])
           | Inr recordings \<Rightarrow>
             (if recordings = [] then (failf ''no recordings found'', [])
              else if Releases (hd recordings) = []
              then (failf ''no releases found for recording'', [])
              else
                let releaseID = hd (Releases (hd recordings));
                    coverURL = ''https://coverartarchive.org/release/'' @ releaseID @ ''/front''
                in case NewRequest N ''HEAD'' coverURL of
                     Some e \<Rightarrow> (wrap ''failed to create HEAD request: '' e, [])
                   | None \<Rightarrow>
                     (case client_Do N ''HEAD'' coverURL of
                        Inl e \<Rightarrow> (wrap ''failed to verify cover: '' e, [HttpDo ''HEAD'' coverURL])
                      | Inr (headStatus, _) \<Rightarrow>
                          (if headStatus \<noteq> 200
                           then failf (''cover not available (status '' @ decimal headStatus @ '')'')
                           else (coverURL, None),
                           [HttpDo ''HEAD'' coverURL])))))"

definition SearchMusicBrainzForCover ::
  "network \<Rightarrow> string \<Rightarrow> string \<Rightarrow> (string \<times> error option) \<times> io list" where
  "SearchMusicBrainzForCover N trackName artistName =
     (if trackName = '''' \<or> artistName = ''''
      then (failf ''track name and artist name are required'', [])
      else
        let query = ''recording:\"'' @ trackName @ ''\" AND artist:\"'' @ artistName @ ''\"'';
            apiURL = ''https://musicbrainz.org/ws/2/recording/?query=''
                       @ QueryEscape N query @ ''&fmt=json&limit=1''
        in case NewRequest N ''GET'' apiURL of
             Some e \<Rightarrow> (wrap ''failed to create request: '' e, [])
           | None \<Rightarrow>
             (case client_Do N ''GET'' apiURL of
                Inl e \<Rightarrow>
                  (wrap ''MusicBrainz API request failed: '' e, [Sleep 1100, HttpDo ''GET'' apiURL])
              | Inr resp \<Rightarrow>
                  (case MusicBrainz_read N resp of
                     (r, ios) \<Rightarrow> (r, [Sleep 1100, HttpDo ''GET'' apiURL] @ ios))))"

section \<open>The file system\<close>

text \<open>
  The file system is the list of the paths that exist, each with what \<^verbatim>\<open>os.Stat\<close> reports
  for it. \<open>WalkErr\<close> is the error that \<^verbatim>\<open>filepath.Walk\<close> hands to its callback at this
  entry (\<open>None\<close> when the entry can be read).
\<close>

record finfo =
  IsDir :: bool
  Size :: nat
  WalkErr :: "error option"

type_synonym filesys = "(string \<times> finfo) list"

definition os_Stat :: "filesys \<Rightarrow> string \<Rightarrow> finfo option" where
  "os_Stat fs path = (if path = '''' then None else map_of fs path)"

text \<open>
  \<^verbatim>\<open>os.Remove\<close> can fail (the file is in use, the directory is read-only, ...). Which
  paths the operating system refuses to remove, and with which error, is given by
  \<open>refused\<close>. A removal that is refused returns the error and leaves the file system as
  it is; otherwise the entry is taken away and the error is nil.
\<close>

definition os_Remove ::
  "(string \<Rightarrow> error option) \<Rightarrow> filesys \<Rightarrow> string \<Rightarrow> error option \<times> filesys" where
  "os_Remove refused fs path =
     (case refused path of
        Some e \<Rightarrow> (Some e, fs)
      | None \<Rightarrow> (None, filter (\<lambda>entry. fst entry \<noteq> path) fs))"

text \<open>The entries of the file tree rooted at \<open>base\<close>, \<open>base\<close> itself included.\<close>

definition under :: "string \<Rightarrow> string \<Rightarrow> bool" where
  "under base path = (path = base \<or> prefix (base @ ''/'') path)"

definition Walk :: "filesys \<Rightarrow> string \<Rightarrow> filesys" where
  "Walk fs base = filter (\<lambda>entry. under base (fst entry)) fs"

section \<open>Requests, responses and the collaborators of the backend\<close>

text \<open>
  Field names are those of the Go structs; where two structs share a field name the later
  one carries a suffix.
\<close>

record Metadata =
  Title :: string
  Artist :: string
  Album :: string
  AlbumArtist :: string
  TrackNumber :: int

record LibraryVerificationRequest =
  ScanPath :: string
  CheckCovers :: bool
  CheckLyrics :: bool
  DownloadMissing :: bool
  DatabasePath :: string

record TrackVerificationResult =
  FilePath :: string
  TrackName :: string
  HasCover :: bool
  HasLyrics :: bool
  CoverPath :: string
  LyricsPath :: string
  MissingCover :: bool
  MissingLyrics :: bool
  CoverDownloaded :: bool
  LyricsDownloaded :: bool
  Error :: string

record LibraryVerificationResponse =
  Success :: bool
  TotalTracks :: int
  TracksWithCover :: int
  TracksWithLyrics :: int
  MissingCovers :: int
  MissingLyrics_n :: int
  CoversDownloaded :: int
  LyricsDownloaded_n :: int
  Tracks :: "TrackVerificationResult list"
  Error_lib :: string

record DownloadRequest =
  ISRC :: string
  Service :: string
  Query :: string
  TrackName_req :: string
  ArtistName :: string
  AlbumName :: string
  AlbumArtist_req :: string
  ReleaseDate :: string
  CoverURL :: string
  ApiURL :: string
  OutputDir :: string
  AudioFormat :: string
  FilenameFormat :: string
  TrackNumber_req :: bool
  Position :: int
  UseAlbumTrackNumber :: bool
  SpotifyID :: string
  EmbedLyrics :: bool
  EmbedMaxQualityCover :: bool
  ServiceURL :: string
  Duration :: int
  ItemID :: string
  SpotifyTrackNumber :: int
  SpotifyDiscNumber :: int
  SpotifyTotalTracks :: int

record DownloadResponse =
  Success_dl :: bool
  Message :: string
  File :: string
  Error_dl :: string
  AlreadyExists :: bool
  ItemID_dl :: string

text \<open>
  The seven download entry points of the three service clients, with the arguments that
  identify what is fetched: the direct URL, or the identity fields to search by. The
  \<open>Tidal\<close> calls carry the API URL the client was made with.
\<close>

datatype dl_call =
    Amazon_DownloadByURL string
  | Amazon_DownloadBySpotifyID string
  | Tidal_DownloadByURLWithFallback string
  | Tidal_DownloadWithFallbackAndISRC string string
  | Tidal_DownloadByURL string string
  | Tidal_DownloadWithISRC string string string
  | Qobuz_DownloadByISRC string string

text \<open>The tag libraries: a FLAC metadata block, and the frames read from an ID3v2 tag.\<close>

datatype flac_block =
    VorbisComment "error + (string \<Rightarrow> string list \<times> error option)"
  | OtherBlock

record id3_tag =
  tag_Title :: string
  tag_Artist :: string
  tag_Album :: string
  frame_TPE2 :: string
  frame_TRCK :: string

datatype LyricsResponse = LyricsLines "string list"

text \<open>
  Functions of the backend package and of third-party libraries whose source is not part
  of the files at hand are parameters of the model, and so is what the operating system
  does: \<open>os_Remove_err\<close> is the error with which \<^verbatim>\<open>os.Remove\<close> refuses a path
  (\<open>None\<close> where the removal goes through). Those that read the file system take it as
  an argument; a service download returns the file name and error it reports and the file
  system it leaves behind.
\<close>

record backend =
  NormalizePath :: "string \<Rightarrow> string"
  filepath_Join :: "string \<Rightarrow> string \<Rightarrow> string"
  UnixNano :: int
  database :: sqlite
  net :: network
  spotify_Search :: "string \<Rightarrow> nat \<Rightarrow> error + string list"
  flac_ParseFile :: "string \<Rightarrow> error + flac_block list"
  id3v2_Open :: "string \<Rightarrow> error + id3_tag"
  DownloadCoverToPath :: "string \<Rightarrow> string \<Rightarrow> bool \<Rightarrow> error option"
  FetchLyricsWithMetadata :: "string \<Rightarrow> string \<Rightarrow> LyricsResponse option \<times> error option"
  ConvertToLRC :: "LyricsResponse \<Rightarrow> string \<Rightarrow> string \<Rightarrow> string"
  os_WriteFile :: "string \<Rightarrow> string \<Rightarrow> error option"
  os_Remove_err :: "string \<Rightarrow> error option"
  CheckISRCExists :: "filesys \<Rightarrow> string \<Rightarrow> string \<Rightarrow> string \<times> bool"
  BuildExpectedFilename ::
    "string \<Rightarrow> string \<Rightarrow> string \<Rightarrow> string \<Rightarrow> string \<Rightarrow> string \<Rightarrow> bool \<Rightarrow> int \<Rightarrow> int \<Rightarrow> bool \<Rightarrow> string"
  ReadISRCFromFile :: "filesys \<Rightarrow> string \<Rightarrow> string \<times> error option"
  download :: "dl_call \<Rightarrow> DownloadRequest \<Rightarrow> filesys \<Rightarrow> (string \<times> error option) \<times> filesys"

section \<open>Reading metadata from an audio file\<close>

definition emptyMetadata :: Metadata where
  "emptyMetadata = \<lparr>Title = '''', Artist = '''', Album = '''', AlbumArtist = '''', TrackNumber = 0\<rparr>"

text \<open>
  \<^verbatim>\<open>cmt.Get(name)\<close> followed by the test \<^verbatim>\<open>err == nil && len(vals) > 0\<close>: the first
  value of the field when there is one, otherwise the value the field already has.
\<close>

definition firstValue :: "(string \<Rightarrow> string list \<times> error option) \<Rightarrow> string \<Rightarrow> string \<Rightarrow> string" where
  "firstValue cmt name old =
     (case cmt name of
        (vals, None) \<Rightarrow> (if vals \<noteq> [] then hd vals else old)
      | (vals, Some e) \<Rightarrow> old)"

text \<open>The loop over the metadata blocks: the first Vorbis comment that parses decides.\<close>

fun vorbisLoop :: "flac_block list \<Rightarrow> Metadata \<Rightarrow> Metadata" where
  "vorbisLoop [] metadata = metadata"
| "vorbisLoop (OtherBlock # blocks) metadata = vorbisLoop blocks metadata"
| "vorbisLoop (VorbisComment (Inl e) # blocks) metadata = vorbisLoop blocks metadata"
| "vorbisLoop (VorbisComment (Inr cmt) # blocks) metadata =
     metadata\<lparr>Title := firstValue cmt ''TITLE'' (Title metadata),
              Artist := firstValue cmt ''ARTIST'' (Artist metadata),
              Album := firstValue cmt ''ALBUM'' (Album metadata),
              AlbumArtist := firstValue cmt ''ALBUMARTIST'' (AlbumArtist metadata)\<rparr>"

definition extractMetadataFromFLAC :: "backend \<Rightarrow> string \<Rightarrow> error + Metadata" where
  "extractMetadataFromFLAC B filePath =
     (case flac_ParseFile B filePath of
        Inl e \<Rightarrow> Inl (Errorf (''failed to parse FLAC: '' @ Error_msg e))
      | Inr blocks \<Rightarrow> Inr (vorbisLoop blocks emptyMetadata))"

text \<open>\<^verbatim>\<open>strconv.Atoi\<close>: an optional sign and decimal digits, within 64 bits.\<close>

definition isDigit :: "char \<Rightarrow> bool" where
  "isDigit c = (c \<in> set ''0123456789'')"

definition digitsValue :: "string \<Rightarrow> nat" where
  "digitsValue ds = foldl (\<lambda>n c. 10 * n + (of_char c - 48)) 0 ds"

definition Atoi :: "string \<Rightarrow> int option" where
  "Atoi s =
     (let neg = (s \<noteq> [] \<and> hd s = CHR ''-'');
          ds = (if s \<noteq> [] \<and> (hd s = CHR ''-'' \<or> hd s = CHR ''+'') then tl s else s)
      in if ds = [] \<or> \<not> list_all isDigit ds then None
         else let v = (if neg then - int (digitsValue ds) else int (digitsValue ds))
              in if v < - (2 ^ 63) \<or> 2 ^ 63 \<le> v then None else Some v)"

definition extractMetadataFromMP3 :: "backend \<Rightarrow> string \<Rightarrow> error + Metadata" where
  "extractMetadataFromMP3 B filePath =
     (case id3v2_Open B filePath of
        Inl e \<Rightarrow> Inl (Errorf (''failed to open MP3: '' @ Error_msg e))
      | Inr tag \<Rightarrow>
        let m0 = \<lparr>Title = tag_Title tag, Artist = tag_Artist tag, Album = tag_Album tag,
                  AlbumArtist = '''', TrackNumber = 0\<rparr>;
            m1 = (if frame_TPE2 tag \<noteq> '''' then m0\<lparr>AlbumArtist := frame_TPE2 tag\<rparr> else m0);
            m2 = (if frame_TRCK tag \<noteq> ''''
                  then (case Atoi (hd (Split (frame_TRCK tag) ''/'')) of
                          Some trackNum \<Rightarrow> m1\<lparr>TrackNumber := trackNum\<rparr>
                        | None \<Rightarrow> m1)
                  else m1)
        in Inr m2)"

definition extractMetadataFromM4A :: "string \<Rightarrow> error + Metadata" where
  "extractMetadataFromM4A filePath =
     (let filename = Base filePath;
          nameWithoutExt = TrimSuffix filename (Ext filename);
          parts = Split nameWithoutExt '' - ''
      in if length parts \<ge> 2
         then Inr (emptyMetadata\<lparr>Artist := TrimSpace (parts ! 0), Title := TrimSpace (parts ! 1)\<rparr>)
         else Inr (emptyMetadata\<lparr>Title := nameWithoutExt\<rparr>))"

definition ExtractMetadataFromFile :: "backend \<Rightarrow> string \<Rightarrow> error + Metadata" where
  "ExtractMetadataFromFile B filePath =
     (let ext = ToLower (Ext filePath)
      in if ext = ''.flac'' then extractMetadataFromFLAC B filePath
         else if ext = ''.mp3'' then extractMetadataFromMP3 B filePath
         else if ext = ''.m4a'' then extractMetadataFromM4A filePath
         else Inl (Errorf (''unsupported file format: '' @ ext)))"

text \<open>
  The fallback of the repair pass, run on what the tags gave: when the title or the artist
  is empty the base name of the file is split at its first \<^verbatim>\<open>" - "\<close>.
\<close>

definition filenameFallback :: "string \<Rightarrow> Metadata \<Rightarrow> Metadata" where
  "filenameFallback filePath metadata =
     (if Title metadata = '''' \<or> Artist metadata = ''''
      then
        let filename = TrimSuffix (Base filePath) (Ext (Base filePath));
            m1 = (if Contains filename '' - ''
                  then
                    let parts = SplitN2 filename '' - ''
                    in if length parts = 2
                       then
                         let ma = (if Title metadata = ''''
                                   then metadata\<lparr>Title := TrimSpace (parts ! 0)\<rparr>
                                   else metadata)
                         in (if Artist ma = ''''
                             then ma\<lparr>Artist := TrimSpace (parts ! 1)\<rparr>
                             else ma)
                       else metadata
                  else metadata)
        in if Title m1 = '''' then m1\<lparr>Title := filename\<rparr> else m1
      else metadata)"

section \<open>Library verification (\<^verbatim>\<open>VerifyLibrary\<close>)\<close>

definition SearchSpotifyForCover ::
  "backend \<Rightarrow> string \<Rightarrow> string \<Rightarrow> string \<Rightarrow> string \<times> error option" where
  "SearchSpotifyForCover B searchQuery expectedTitle expectedArtist =
     (case spotify_Search B searchQuery 5 of
        Inl e \<Rightarrow> wrap ''Spotify search failed: '' e
      | Inr images \<Rightarrow>
        (if images = [] then failf (''no tracks found for query: '' @ searchQuery)
         else if hd images \<noteq> '''' then (hd images, None)
         else failf ''no cover image found for track''))"

text \<open>
  What the repair pass does to the outside world, in order: a cover source is asked
  (\<open>Lookup\<close>), with the network effects of the search after it; a cover is downloaded
  to a path; a lyrics file is written.
\<close>

datatype source = DbAlbum | DbTrack | ITunes | Deezer | Spotify | MusicBrainz

datatype effect =
    Lookup source
  | Net io
  | DownloadCover string string
  | WriteLyrics string string

text \<open>
  One of the six consecutive blocks that may assign \<^verbatim>\<open>coverURL\<close>: when the guard of the
  block holds for the current value the source is called and its string result replaces
  the value, whatever the error is.
\<close>

definition lookup_step ::
  "(string \<Rightarrow> bool) \<Rightarrow> source \<Rightarrow> (string \<times> error option) \<times> io list \<Rightarrow>
   string \<times> effect list \<Rightarrow> string \<times> effect list" where
  "lookup_step guard src call st =
     (case st of (coverURL, effects) \<Rightarrow>
        if guard coverURL
        then (case call of ((url, err), ios) \<Rightarrow> (url, effects @ Lookup src # map Net ios))
        else st)"

definition findCoverURL ::
  "backend \<Rightarrow> LibraryVerificationRequest \<Rightarrow> Metadata \<Rightarrow> string \<times> effect list" where
  "findCoverURL B req metadata =
     (let dbPath = DatabasePath req;
          title = Title metadata;
          artist = Artist metadata;
          st1 = lookup_step (\<lambda>coverURL. dbPath \<noteq> '''' \<and> Album metadata \<noteq> '''') DbAlbum
                  (GetAlbumCoverFromDatabase (database B) dbPath (Album metadata), [])
                  ('''', []);
          st2 = lookup_step
                  (\<lambda>coverURL. coverURL = '''' \<and> dbPath \<noteq> '''' \<and> title \<noteq> '''' \<and> artist \<noteq> '''')
                  DbTrack
                  (GetCoverByTrackFromDatabase (database B) dbPath title artist, [])
                  st1;
          st3 = lookup_step (\<lambda>coverURL. coverURL = '''') ITunes
                  (SearchITunesForCover (net B) title artist) st2;
          st4 = lookup_step (\<lambda>coverURL. coverURL = '''') Deezer
                  (SearchDeezerForCover (net B) title artist) st3;
          st5 = lookup_step (\<lambda>coverURL. coverURL = '''') Spotify
                  (SearchSpotifyForCover B (''track:'' @ title @ '' artist:'' @ artist) title artist, [])
                  st4
      in lookup_step (\<lambda>coverURL. coverURL = '''') MusicBrainz
           (SearchMusicBrainzForCover (net B) title artist) st5)"

text \<open>
  The body of a cover worker for one track: the changed track record, whether the cover
  counts as downloaded, and the effects.
\<close>

definition repairCover ::
  "backend \<Rightarrow> LibraryVerificationRequest \<Rightarrow> TrackVerificationResult \<Rightarrow>
   (TrackVerificationResult \<times> bool) \<times> effect list" where
  "repairCover B req track =
     (case ExtractMetadataFromFile B (FilePath track) of
        Inl e \<Rightarrow> ((track\<lparr>Error := ''Failed to extract metadata: '' @ Error_msg e\<rparr>, False), [])
      | Inr tags \<Rightarrow>
        (case findCoverURL B req (filenameFallback (FilePath track) tags) of
           (coverURL, effects) \<Rightarrow>
             if coverURL = ''''
             then ((track\<lparr>Error := ''Failed to find cover from any source''\<rparr>, False), effects)
             else
               let basePath = TrimSuffix (FilePath track) (Ext (FilePath track));
                   coverPath = basePath @ ''.jpg''
               in case DownloadCoverToPath B coverURL coverPath False of
                    Some e \<Rightarrow>
                      ((track\<lparr>Error := ''Failed to download cover: '' @ Error_msg e\<rparr>, False),
                       effects @ [DownloadCover coverURL coverPath])
                  | None \<Rightarrow>
                      ((track\<lparr>CoverDownloaded := True, CoverPath := coverPath\<rparr>, True),
                       effects @ [DownloadCover coverURL coverPath])))"

definition repairLyrics ::
  "backend \<Rightarrow> TrackVerificationResult \<Rightarrow> (TrackVerificationResult \<times> bool) \<times> effect list" where
  "repairLyrics B track =
     (case ExtractMetadataFromFile B (FilePath track) of
        Inl e \<Rightarrow> ((track\<lparr>Error := ''Failed to extract metadata: '' @ Error_msg e\<rparr>, False), [])
      | Inr tags \<Rightarrow>
        let metadata = filenameFallback (FilePath track) tags
        in if Title metadata = '''' then ((track, False), [])
           else case FetchLyricsWithMetadata B (Title metadata) (Artist metadata) of
                  (Some lyricsResp, None) \<Rightarrow>
                    let lrcContent = ConvertToLRC B lyricsResp (Title metadata) (Artist metadata)
                    in if lrcContent = '''' then ((track, False), [])
                       else
                         let basePath = TrimSuffix (FilePath track) (Ext (FilePath track));
                             lyricsPath = basePath @ ''.lrc''
                         in (case os_WriteFile B lyricsPath lrcContent of
                               Some e \<Rightarrow>
                                 ((track\<lparr>Error := ''Failed to save lyrics: '' @ Error_msg e\<rparr>, False),
                                  [WriteLyrics lyricsPath lrcContent])
                             | None \<Rightarrow>
                                 ((track\<lparr>LyricsDownloaded := True, LyricsPath := lyricsPath\<rparr>, True),
                                  [WriteLyrics lyricsPath lrcContent]))
                | _ \<Rightarrow> ((track, False), []))"

text \<open>
  The worker pool takes the tracks that miss the asset from a channel, in the order of
  \<^verbatim>\<open>response.Tracks\<close>. A worker touches only its own track and the shared counter, and
  the collaborators are functions of their arguments, so the tracks are handled here one
  after the other in channel order; the result is the new track list, the number of
  downloads counted, and the effects.
\<close>

fun repairAll ::
  "(TrackVerificationResult \<Rightarrow> bool) \<Rightarrow>
   (TrackVerificationResult \<Rightarrow> (TrackVerificationResult \<times> bool) \<times> effect list) \<Rightarrow>
   TrackVerificationResult list \<Rightarrow> (TrackVerificationResult list \<times> int) \<times> effect list" where
  "repairAll missing worker [] = (([], 0), [])"
| "repairAll missing worker (track # rest) =
     (case repairAll missing worker rest of
        ((rest', n), later) \<Rightarrow>
          if missing track
          then (case worker track of
                  ((track', ok), effects) \<Rightarrow>
                    ((track' # rest', (if ok then 1 else 0) + n), effects @ later))
          else ((track # rest', n), later))"

definition isAudioFile :: "string \<Rightarrow> bool" where
  "isAudioFile path =
     (let ext = ToLower (Ext path) in ext = ''.mp3'' \<or> ext = ''.flac'' \<or> ext = ''.m4a'')"

text \<open>The callback of \<^verbatim>\<open>filepath.Walk\<close>, run over the entries the walk visits.\<close>

fun collectAudio :: "filesys \<Rightarrow> string list \<Rightarrow> error + string list" where
  "collectAudio [] audioFiles = Inr audioFiles"
| "collectAudio ((path, info) # entries) audioFiles =
     (case WalkErr info of
        Some e \<Rightarrow> Inl e
      | None \<Rightarrow>
        if \<not> IsDir info \<and> isAudioFile path
        then collectAudio entries (audioFiles @ [path])
        else collectAudio entries audioFiles)"

text \<open>The first of two sibling paths that exists, or the empty string.\<close>

definition firstExisting :: "filesys \<Rightarrow> string \<Rightarrow> string \<Rightarrow> string" where
  "firstExisting fs p1 p2 =
     (if os_Stat fs p1 \<noteq> None then p1 else if os_Stat fs p2 \<noteq> None then p2 else '''')"

definition newTrack :: "string \<Rightarrow> TrackVerificationResult" where
  "newTrack audioPath =
     \<lparr>FilePath = audioPath, TrackName = Base audioPath, HasCover = False, HasLyrics = False,
      CoverPath = '''', LyricsPath = '''', MissingCover = False, MissingLyrics = False,
      CoverDownloaded = False, LyricsDownloaded = False, Error = ''''\<rparr>"

definition checkCover ::
  "filesys \<Rightarrow> string \<Rightarrow> TrackVerificationResult \<times> LibraryVerificationResponse \<Rightarrow>
   TrackVerificationResult \<times> LibraryVerificationResponse" where
  "checkCover fs audioPath st =
     (case st of (result, response) \<Rightarrow>
        let basePath = TrimSuffix audioPath (Ext audioPath);
            coverPath = firstExisting fs (basePath @ ''.jpg'') (basePath @ ''.png'')
        in if coverPath \<noteq> ''''
           then (result\<lparr>HasCover := True, CoverPath := coverPath\<rparr>,
                 response\<lparr>TracksWithCover := TracksWithCover response + 1\<rparr>)
           else (result\<lparr>MissingCover := True\<rparr>,
                 response\<lparr>MissingCovers := MissingCovers response + 1\<rparr>))"

definition checkLyrics ::
  "filesys \<Rightarrow> string \<Rightarrow> TrackVerificationResult \<times> LibraryVerificationResponse \<Rightarrow>
   TrackVerificationResult \<times> LibraryVerificationResponse" where
  "checkLyrics fs audioPath st =
     (case st of (result, response) \<Rightarrow>
        let basePath = TrimSuffix audioPath (Ext audioPath);
            lyricsPath = firstExisting fs (basePath @ ''.lrc'') (basePath @ ''.txt'')
        in if lyricsPath \<noteq> ''''
           then (result\<lparr>HasLyrics := True, LyricsPath := lyricsPath\<rparr>,
                 response\<lparr>TracksWithLyrics := TracksWithLyrics response + 1\<rparr>)
           else (result\<lparr>MissingLyrics := True\<rparr>,
                 response\<lparr>MissingLyrics_n := MissingLyrics_n response + 1\<rparr>))"

text \<open>One round of the loop over \<^verbatim>\<open>audioFiles\<close>.\<close>

definition checkFile ::
  "filesys \<Rightarrow> LibraryVerificationRequest \<Rightarrow> string \<Rightarrow> LibraryVerificationResponse \<Rightarrow>
   LibraryVerificationResponse" where
  "checkFile fs req audioPath response =
     (let st0 = (newTrack audioPath, response);
          st1 = (if CheckCovers req then checkCover fs audioPath st0 else st0);
          st2 = (if CheckLyrics req then checkLyrics fs audioPath st1 else st1)
      in case st2 of (result, response') \<Rightarrow> response'\<lparr>Tracks := Tracks response' @ [result]\<rparr>)"

fun scanLoop ::
  "filesys \<Rightarrow> LibraryVerificationRequest \<Rightarrow> string list \<Rightarrow> LibraryVerificationResponse \<Rightarrow>
   LibraryVerificationResponse" where
  "scanLoop fs req [] response = response"
| "scanLoop fs req (audioPath # rest) response =
     scanLoop fs req rest (checkFile fs req audioPath response)"

definition newResponse :: "bool \<Rightarrow> string \<Rightarrow> LibraryVerificationResponse" where
  "newResponse ok msg =
     \<lparr>Success = ok, TotalTracks = 0, TracksWithCover = 0, TracksWithLyrics = 0,
      MissingCovers = 0, MissingLyrics_n = 0, CoversDownloaded = 0, LyricsDownloaded_n = 0,
      Tracks = [], Error_lib = msg\<rparr>"

definition VerifyLibrary ::
  "backend \<Rightarrow> filesys \<Rightarrow> LibraryVerificationRequest \<Rightarrow>
   (LibraryVerificationResponse \<times> error option) \<times> effect list" where
  "VerifyLibrary B fs req =
     (let scanPath = NormalizePath B (ScanPath req)
      in if os_Stat fs scanPath = None
         then ((newResponse False (''Directory does not exist: '' @ scanPath),
                Some (Errorf (''directory does not exist: '' @ scanPath))), [])
         else case collectAudio (Walk fs scanPath) [] of
           Inl e \<Rightarrow> ((newResponse False (''Failed to scan directory: '' @ Error_msg e), Some e), [])
         | Inr audioFiles \<Rightarrow>
           let scanned = scanLoop fs req audioFiles
                           ((newResponse True '''')\<lparr>TotalTracks := int (length audioFiles)\<rparr>);
               (withCovers, coverEffects) =
                 (if DownloadMissing req \<and> MissingCovers scanned > 0
                  then (case repairAll MissingCover (repairCover B req) (Tracks scanned) of
                          ((tracks, n), effects) \<Rightarrow>
                            (scanned\<lparr>Tracks := tracks,
                                     CoversDownloaded := CoversDownloaded scanned + n\<rparr>, effects))
                  else (scanned, []));
               (withLyrics, lyricsEffects) =
                 (if DownloadMissing req \<and> MissingLyrics_n withCovers > 0
                  then (case repairAll MissingLyrics (repairLyrics B) (Tracks withCovers) of
                          ((tracks, n), effects) \<Rightarrow>
                            (withCovers\<lparr>Tracks := tracks,
                                        LyricsDownloaded_n := LyricsDownloaded_n withCovers + n\<rparr>,
                             effects))
                  else (withCovers, []))
           in ((withLyrics, None), coverEffects @ lyricsEffects))"

section \<open>Downloading one track (\<^verbatim>\<open>App.DownloadTrack\<close>)\<close>

text \<open>
  The calls \<^verbatim>\<open>DownloadTrack\<close> makes on the queue store, the file system and the service
  clients, in the order they happen. A \<open>Download\<close> entry holds the call and the file name
  and error it returned; \<open>EmbedLyricsAsync\<close> is the start of the detached lyrics task.
\<close>

datatype call =
    AddToQueue string string string string string
  | SetDownloading bool
  | StartDownloadItem string
  | SkipDownloadItem string string
  | CompleteDownloadItem string string real
  | FailDownloadItem string string
  | Remove string
  | Download dl_call string "error option"
  | EmbedLyricsAsync string string string string

text \<open>
  What a call of \<^verbatim>\<open>DownloadTrack\<close> leaves: the two values it returns, the file system,
  and the calls it made.
\<close>

record outcome =
  response :: DownloadResponse
  failure :: "error option"
  disk :: filesys
  calls :: "call list"

definition failedResponse :: "string \<Rightarrow> string \<Rightarrow> DownloadResponse" where
  "failedResponse msg itemID =
     \<lparr>Success_dl = False, Message = '''', File = '''', Error_dl = msg, AlreadyExists = False,
      ItemID_dl = itemID\<rparr>"

definition doneResponse :: "string \<Rightarrow> string \<Rightarrow> bool \<Rightarrow> string \<Rightarrow> DownloadResponse" where
  "doneResponse msg file existed itemID =
     \<lparr>Success_dl = True, Message = msg, File = file, Error_dl = '''', AlreadyExists = existed,
      ItemID_dl = itemID\<rparr>"

definition withDefaults :: "backend \<Rightarrow> DownloadRequest \<Rightarrow> DownloadRequest" where
  "withDefaults B req =
     req\<lparr>Service := (if Service req = '''' then ''tidal'' else Service req),
         OutputDir := (if OutputDir req = '''' then ''.'' else NormalizePath B (OutputDir req)),
         AudioFormat := (if AudioFormat req = '''' then ''LOSSLESS'' else AudioFormat req),
         FilenameFormat :=
           (if FilenameFormat req = '''' then ''title-artist'' else FilenameFormat req)\<rparr>"

definition itemID_of :: "backend \<Rightarrow> DownloadRequest \<Rightarrow> string" where
  "itemID_of B req =
     (if ItemID req = '''' then ISRC req @ ''-'' @ itoa (UnixNano B) else ItemID req)"

text \<open>The calls up to the first existence check.\<close>

definition startCalls :: "backend \<Rightarrow> DownloadRequest \<Rightarrow> call list" where
  "startCalls B req =
     (if ItemID req = ''''
      then [AddToQueue (itemID_of B req) (TrackName_req req) (ArtistName req) (AlbumName req)
              (ISRC req)]
      else [])
     @ [SetDownloading True, StartDownloadItem (itemID_of B req)]"

definition expectedPath :: "backend \<Rightarrow> DownloadRequest \<Rightarrow> string" where
  "expectedPath B req =
     filepath_Join B (OutputDir req)
       (BuildExpectedFilename B (TrackName_req req) (ArtistName req) (AlbumName req)
          (AlbumArtist_req req) (ReleaseDate req) (FilenameFormat req) (TrackNumber_req req)
          (Position req) (SpotifyDiscNumber req) (UseAlbumTrackNumber req))"

text \<open>
  The check by file name: nothing to act on (no track metadata, no file at the expected
  path, or a file of at most 100 KiB), a file that is kept, or a file that is removed.
\<close>

datatype path_check = Nothing | Keep string | Corrupted string

definition checkExpectedPath :: "backend \<Rightarrow> filesys \<Rightarrow> DownloadRequest \<Rightarrow> path_check" where
  "checkExpectedPath B fs req =
     (if TrackName_req req \<noteq> '''' \<and> ArtistName req \<noteq> ''''
      then
        (case os_Stat fs (expectedPath B req) of
           Some fileInfo \<Rightarrow>
             if Size fileInfo > 100 * 1024
             then (case ReadISRCFromFile B fs (expectedPath B req) of
                     (fileISRC, readErr) \<Rightarrow>
                       if readErr = None \<and> fileISRC \<noteq> '''' then Keep (expectedPath B req)
                       else Corrupted (expectedPath B req))
             else Nothing
         | None \<Rightarrow> Nothing)
      else Nothing)"

text \<open>
  The \<^verbatim>\<open>switch\<close> on the service: the download call that is made, or the two messages of
  the failure returned at once.
\<close>

definition selectDownload :: "DownloadRequest \<Rightarrow> string \<times> string + dl_call" where
  "selectDownload req =
     (if Service req = ''amazon'' then
        (if ServiceURL req \<noteq> '''' then Inr (Amazon_DownloadByURL (ServiceURL req))
         else if SpotifyID req = ''''
         then Inl (''Spotify ID is required for Amazon Music'',
                   ''spotify ID is required for Amazon Music'')
         else Inr (Amazon_DownloadBySpotifyID (SpotifyID req)))
      else if Service req = ''tidal'' then
        (if ApiURL req = '''' \<or> ApiURL req = ''auto'' then
           (if ServiceURL req \<noteq> '''' then Inr (Tidal_DownloadByURLWithFallback (ServiceURL req))
            else if SpotifyID req = ''''
            then Inl (''Spotify ID is required for Tidal'', ''spotify ID is required for Tidal'')
            else Inr (Tidal_DownloadWithFallbackAndISRC (SpotifyID req) (ISRC req)))
         else
           (if ServiceURL req \<noteq> '''' then Inr (Tidal_DownloadByURL (ApiURL req) (ServiceURL req))
            else if SpotifyID req = ''''
            then Inl (''Spotify ID is required for Tidal'', ''spotify ID is required for Tidal'')
            else Inr (Tidal_DownloadWithISRC (ApiURL req) (SpotifyID req) (ISRC req))))
      else if Service req = ''qobuz'' then
        Inr (Qobuz_DownloadByISRC (ISRC req)
               (if AudioFormat req = '''' then ''6'' else AudioFormat req))
      else Inl (''Unknown service: '' @ Service req, ''unknown service: '' @ Service req))"

text \<open>
  The statement \<^verbatim>\<open>if removeErr := os.Remove(path); removeErr != nil { ... }\<close>, whose
  body only prints a warning: whether the removal fails or not the code goes on, on the
  file system that the removal leaves.
\<close>

definition removeOrWarn :: "backend \<Rightarrow> filesys \<Rightarrow> string \<Rightarrow> filesys" where
  "removeOrWarn B fs path =
     (case os_Remove (os_Remove_err B) fs path of
        (Some removeErr, fs') \<Rightarrow> fs'
      | (None, fs') \<Rightarrow> fs')"

text \<open>
  The service download and what follows it, on the file system \<open>fs\<close> and after the calls
  \<open>earlier\<close>. The deferred \<^verbatim>\<open>SetDownloading(false)\<close> is the last call of every return.
\<close>

definition attempt ::
  "backend \<Rightarrow> filesys \<Rightarrow> DownloadRequest \<Rightarrow> string \<Rightarrow> call list \<Rightarrow> outcome" where
  "attempt B fs req itemID earlier =
     (case selectDownload req of
        Inl (msg, e) \<Rightarrow>
          \<lparr>response = failedResponse msg '''', failure = Some (Errorf e), disk = fs,
           calls = earlier @ [SetDownloading False]\<rparr>
      | Inr c \<Rightarrow>
        (case download B c req fs of
           ((filename, Some e), fs') \<Rightarrow>
             let cleanup = (filename \<noteq> '''' \<and> \<not> HasPrefix filename ''EXISTS:''
                            \<and> os_Stat fs' filename \<noteq> None)
             in \<lparr>response = failedResponse (''Download failed: '' @ Error_msg e) itemID,
                 failure = Some e,
                 disk = (if cleanup then removeOrWarn B fs' filename else fs'),
                 calls = earlier @ [Download c filename (Some e)]
                         @ (if cleanup then [Remove filename] else [])
                         @ [SetDownloading False]\<rparr>
         | ((filename, None), fs') \<Rightarrow>
             let alreadyExists = HasPrefix filename ''EXISTS:'';
                 file = TrimPrefix filename ''EXISTS:'';
                 lyrics = (if \<not> alreadyExists \<and> SpotifyID req \<noteq> '''' \<and> EmbedLyrics req
                              \<and> HasSuffix file ''.flac''
                           then [EmbedLyricsAsync file (SpotifyID req) (TrackName_req req)
                                   (ArtistName req)]
                           else []);
                 mark = (if alreadyExists then SkipDownloadItem itemID file
                         else case os_Stat fs' file of
                                Some fileInfo \<Rightarrow>
                                  CompleteDownloadItem itemID file
                                    (real (Size fileInfo) / (1024 * 1024))
                              | None \<Rightarrow> CompleteDownloadItem itemID file 0)
             in \<lparr>response =
                   doneResponse
                     (if alreadyExists then ''File already exists''
                      else ''Download completed successfully'')
                     file alreadyExists itemID,
                 failure = None,
                 disk = fs',
                 calls = earlier @ [Download c filename None] @ lyrics
                         @ [mark, SetDownloading False]\<rparr>))"

definition DownloadTrack :: "backend \<Rightarrow> filesys \<Rightarrow> DownloadRequest \<Rightarrow> outcome" where
  "DownloadTrack B fs request =
     (if ISRC request = ''''
      then \<lparr>response = failedResponse ''ISRC is required'' '''',
            failure = Some (Errorf ''ISRC is required''), disk = fs, calls = []\<rparr>
      else
        let req = withDefaults B request;
            itemID = itemID_of B req;
            started = startCalls B req
        in case CheckISRCExists B fs (OutputDir req) (ISRC req) of
             (existingFile, True) \<Rightarrow>
               \<lparr>response =
                  doneResponse ''File with same ISRC already exists'' existingFile True itemID,
                failure = None, disk = fs,
                calls = started @ [SkipDownloadItem itemID existingFile, SetDownloading False]\<rparr>
           | (existingFile, False) \<Rightarrow>
               (case checkExpectedPath B fs req of
                  Keep path \<Rightarrow>
                    \<lparr>response = doneResponse ''File already exists'' path True itemID,
                     failure = None, disk = fs,
                     calls = started @ [SkipDownloadItem itemID path, SetDownloading False]\<rparr>
                | Corrupted path \<Rightarrow>
                    attempt B (removeOrWarn B fs path) req itemID (started @ [Remove path])
                | Nothing \<Rightarrow> attempt B fs req itemID started))"

text \<open>Whether a download call fetches from a direct URL, and from which.\<close>

fun directURL :: "dl_call \<Rightarrow> string option" where
  "directURL (Amazon_DownloadByURL url) = Some url"
| "directURL (Tidal_DownloadByURLWithFallback url) = Some url"
| "directURL (Tidal_DownloadByURL api url) = Some url"
| "directURL (Amazon_DownloadBySpotifyID sid) = None"
| "directURL (Tidal_DownloadWithFallbackAndISRC sid isrc) = None"
| "directURL (Tidal_DownloadWithISRC api sid isrc) = None"
| "directURL (Qobuz_DownloadByISRC isrc quality) = None"

text \<open>The download calls among the calls of an outcome.\<close>

fun downloads :: "call list \<Rightarrow> dl_call list" where
  "downloads [] = []"
| "downloads (Download c filename e # cs) = c # downloads cs"
| "downloads (other # cs) = downloads cs"

section \<open>Resolution across services\<close>





section \<open>A small library for the examples\<close>

definition demo_sqlite :: sqlite where
  "demo_sqlite =
     \<lparr>sql_Open = (\<lambda>p. if p = ''/music/library.db'' then None
                        else Some (Errorf ''unable to open database file'')),
      db_Ping = (\<lambda>p. None),
      QueryRow_text = (\<lambda>p q args.
         if q = SelectISRC \<and> args = [SqlText ''70LcF31zb1H0PyJoS1Sx1r'']
         then Scanned ''GBAYE9200070'' else ErrNoRows),
      QueryRow_int = (\<lambda>p q args. ErrNoRows)\<rparr>"

definition demo_network :: network where
  "demo_network =
     \<lparr>QueryEscape = map (\<lambda>c. if c = CHR '' '' then CHR ''+'' else c),
      NewRequest = (\<lambda>method url. None),
      client_Do = (\<lambda>method url. Inl (Errorf ''no route to host'')),
      json_iTunes = (\<lambda>body. Inl (Errorf ''unexpected end of JSON input'')),
      json_MusicBrainz = (\<lambda>body. Inl (Errorf ''unexpected end of JSON input'')),
      json_Deezer = (\<lambda>body. Inl (Errorf ''unexpected end of JSON input''))\<rparr>"

definition audioFile :: "nat \<Rightarrow> finfo" where
  "audioFile n = \<lparr>IsDir = False, Size = n, WalkErr = None\<rparr>"

definition folder :: finfo where
  "folder = \<lparr>IsDir = True, Size = 4096, WalkErr = None\<rparr>"

definition demo_fs :: filesys where
  "demo_fs =
     [(''/music'', folder),
      (''/music/Creep - Radiohead.flac'', audioFile 31457280),
      (''/music/Creep - Radiohead.jpg'', audioFile 204800),
      (''/music/One More Time - Daft Punk.flac'', audioFile 0),
      (''/music/live'', folder),
      (''/music/live/Karma Police - Radiohead.MP3'', audioFile 9437184),
      (''/music/live/Karma Police - Radiohead.lrc'', audioFile 2048),
      (''/music/live/setlist.txt'', audioFile 512)]"

text \<open>
  A backend for the examples: names are built as \<^verbatim>\<open>Title - Artist.flac\<close>, one file
  carries an ISRC tag, a download from a direct URL succeeds, and a download by search
  breaks off and leaves a partial file behind.
\<close>

definition demo_backend :: backend where
  "demo_backend =
     \<lparr>NormalizePath = (\<lambda>p. p),
      filepath_Join = (\<lambda>dir name. dir @ ''/'' @ name),
      UnixNano = 1762150000,
      database = demo_sqlite,
      net = demo_network,
      spotify_Search = (\<lambda>query limit. Inr []),
      flac_ParseFile = (\<lambda>path. Inr []),
      id3v2_Open = (\<lambda>path. Inl (Errorf ''no tag'')),
      DownloadCoverToPath = (\<lambda>url path embed. None),
      FetchLyricsWithMetadata = (\<lambda>title artist. (None, Some (Errorf ''lyrics not found''))),
      ConvertToLRC = (\<lambda>lyrics title artist. ''''),
      os_WriteFile = (\<lambda>path content. None),
      os_Remove_err = (\<lambda>path. None),
      CheckISRCExists = (\<lambda>fs dir isrc.
         if isrc = ''GBAYE9200070'' \<and> dir = ''/music''
            \<and> os_Stat fs ''/music/Creep - Radiohead.flac'' \<noteq> None
         then (''/music/Creep - Radiohead.flac'', True) else ('''', False)),
      BuildExpectedFilename = (\<lambda>title artist album albumArtist date format number position disc
         useAlbum. title @ '' - '' @ artist @ ''.flac''),
      ReadISRCFromFile = (\<lambda>fs path.
         if path = ''/music/Creep - Radiohead.flac'' then (''GBAYE9200070'', None)
         else ('''', Some (Errorf ''no ISRC tag''))),
      download = (\<lambda>c req fs.
         if directURL c = None
         then ((OutputDir req @ ''/partial.flac'', Some (Errorf ''unexpected EOF'')),
               (OutputDir req @ ''/partial.flac'', audioFile 4096) # fs)
         else ((OutputDir req @ ''/new.flac'', None),
               (OutputDir req @ ''/new.flac'', audioFile 31457280) # fs))\<rparr>"

definition demo_request :: DownloadRequest where
  "demo_request =
     \<lparr>ISRC = ''GBAYE9200070'', Service = ''tidal'', Query = '''', TrackName_req = ''Creep'',
      ArtistName = ''Radiohead'', AlbumName = ''Pablo Honey'', AlbumArtist_req = ''Radiohead'',
      ReleaseDate = ''1993-02-22'', CoverURL = '''', ApiURL = '''', OutputDir = ''/music'',
      AudioFormat = '''', FilenameFormat = '''', TrackNumber_req = False, Position = 0,
      UseAlbumTrackNumber = False, SpotifyID = ''70LcF31zb1H0PyJoS1Sx1r'', EmbedLyrics = False,
      EmbedMaxQualityCover = False, ServiceURL = '''', Duration = 238, ItemID = ''item-1'',
      SpotifyTrackNumber = 2, SpotifyDiscNumber = 1, SpotifyTotalTracks = 12\<rparr>"

text \<open>A second track, whose file at the expected path is empty.\<close>

definition demo_request2 :: DownloadRequest where
  "demo_request2 =
     demo_request\<lparr>ISRC := ''GBDUW0000053'', TrackName_req := ''One More Time'',
                  ArtistName := ''Daft Punk'', AlbumName := ''Discovery'',
                  AlbumArtist_req := ''Daft Punk'', SpotifyID := ''0DiWol3AO6WpXZgp0goxAV'',
                  ItemID := ''item-2''\<rparr>"

declare decimal.simps [simp del]

declare Split.simps [simp del]

text \<open>The same backend on a system that refuses to remove the partial file.\<close>

definition demo_backend_refusing :: backend where
  "demo_backend_refusing =
     demo_backend
       \<lparr>os_Remove_err := (\<lambda>path.
          if path = ''/music/partial.flac'' then Some (Errorf ''permission denied'')
          else None)\<rparr>"

text \<open>The second track again, now with a direct service URL.\<close>

definition demo_request3 :: DownloadRequest where
  "demo_request3 = demo_request2\<lparr>ServiceURL := ''https://tidal.com/browse/track/1566''\<rparr>"

text \<open>A file system where the file at the expected path is large and carries no tag.\<close>

definition demo_fs_untagged :: filesys where
  "demo_fs_untagged =
     [(''/music'', folder),
      (''/music/One More Time - Daft Punk.flac'', audioFile 5242880)]"

text \<open>
  The file system on which the service download of a request runs: the one of the call,
  after the removal of a file that the check by file name found corrupt.
\<close>

definition beforeDownload :: "backend \<Rightarrow> filesys \<Rightarrow> DownloadRequest \<Rightarrow> filesys" where
  "beforeDownload B fs request =
     (case checkExpectedPath B fs (withDefaults B request) of
        Corrupted path \<Rightarrow> removeOrWarn B fs path
      | Keep path \<Rightarrow> fs
      | Nothing \<Rightarrow> fs)"

text \<open>
  The requests for which the service switch makes a download: \<^verbatim>\<open>qobuz\<close> always,
  \<^verbatim>\<open>amazon\<close> and \<^verbatim>\<open>tidal\<close> with a service URL or a Spotify ID.
\<close>

definition served :: "DownloadRequest \<Rightarrow> bool" where
  "served req \<longleftrightarrow>
     Service req = ''qobuz''
     \<or> ((Service req = ''amazon'' \<or> Service req = ''tidal'')
        \<and> (ServiceURL req \<noteq> '''' \<or> SpotifyID req \<noteq> ''''))"

text \<open>What the service download \<open>c\<close> of a request leaves on the file system.\<close>

definition leftByDownload :: "backend \<Rightarrow> filesys \<Rightarrow> DownloadRequest \<Rightarrow> dl_call \<Rightarrow> filesys" where
  "leftByDownload B fs request c =
     snd (download B c (withDefaults B request) (beforeDownload B fs request))"


section \<open>Vocabulary for the properties of the repair pass\<close>






fun found :: "(source \<Rightarrow> bool) \<Rightarrow> (source \<Rightarrow> string) \<Rightarrow> string \<Rightarrow> source list \<Rightarrow> string" where
  "found cons ans url [] = url"
| "found cons ans url (src # later) =
     (if url = '''' \<and> cons src then found cons ans (ans src) later
      else found cons ans url later)"


text \<open>Whether one of the two sibling files of an audio file exists.\<close>

definition hasSibling :: "filesys \<Rightarrow> string \<Rightarrow> string \<Rightarrow> string \<Rightarrow> bool" where
  "hasSibling fs audioPath ext1 ext2 =
     (os_Stat fs (TrimSuffix audioPath (Ext audioPath) @ ext1) \<noteq> None
      \<or> os_Stat fs (TrimSuffix audioPath (Ext audioPath) @ ext2) \<noteq> None)"




definition demo_verify :: LibraryVerificationRequest where
  "demo_verify =
     \<lparr>ScanPath = ''/music'', CheckCovers = True, CheckLyrics = True, DownloadMissing = True,
      DatabasePath = ''/music/library.db''\<rparr>"


text \<open>
  What the scan records of a track and the repair passes leave alone, and the counters of
  a response as they follow from its track list.
\<close>

definition sameScan :: "TrackVerificationResult \<Rightarrow> TrackVerificationResult \<Rightarrow> bool" where
  "sameScan t t' =
     (FilePath t' = FilePath t \<and> HasCover t' = HasCover t \<and> MissingCover t' = MissingCover t
      \<and> HasLyrics t' = HasLyrics t \<and> MissingLyrics t' = MissingLyrics t)"

definition scanned :: "filesys \<Rightarrow> LibraryVerificationRequest \<Rightarrow> TrackVerificationResult \<Rightarrow> bool" where
  "scanned fs req t =
     (HasCover t = (CheckCovers req \<and> hasSibling fs (FilePath t) ''.jpg'' ''.png'')
      \<and> MissingCover t = (CheckCovers req \<and> \<not> hasSibling fs (FilePath t) ''.jpg'' ''.png'')
      \<and> HasLyrics t = (CheckLyrics req \<and> hasSibling fs (FilePath t) ''.lrc'' ''.txt'')
      \<and> MissingLyrics t = (CheckLyrics req \<and> \<not> hasSibling fs (FilePath t) ''.lrc'' ''.txt''))"

definition counted :: "LibraryVerificationResponse \<Rightarrow> TrackVerificationResult list \<Rightarrow> bool" where
  "counted resp tracks =
     (TracksWithCover resp = int (length (filter HasCover tracks))
      \<and> MissingCovers resp = int (length (filter MissingCover tracks))
      \<and> TracksWithLyrics resp = int (length (filter HasLyrics tracks))
      \<and> MissingLyrics_n resp = int (length (filter MissingLyrics tracks)))"

text \<open>A scan of the example library without repair.\<close>

definition demo_scan :: LibraryVerificationRequest where
  "demo_scan = demo_verify\<lparr>DownloadMissing := False, DatabasePath := ''''\<rparr>"

section \<open>Properties\<close>

subsection \<open>Lookup of the ISRC in the local database\<close>

text \<open>
  C10. \<^verbatim>\<open>GetISRCFromDatabase\<close> answers the empty identifier with a nil error both when no
  database path is configured and when the query matches no row, so the two cases cannot be
  told apart by the caller; the error is non-nil exactly when opening, connecting or the
  query itself fails, and then the identifier is empty as well.
\<close>

theorem GetISRCFromDatabase_not_found_is_not_an_error:
  "GetISRCFromDatabase S '''' spotifyID = ('''', None)
   \<and> (sql_Open S p = None \<longrightarrow> db_Ping S p = None \<longrightarrow>
        QueryRow_text S p SelectISRC [SqlText spotifyID] = ErrNoRows \<longrightarrow>
        GetISRCFromDatabase S p spotifyID = ('''', None))
   \<and> (snd (GetISRCFromDatabase S p spotifyID) \<noteq> None \<longleftrightarrow>
        p \<noteq> '''' \<and>
        (sql_Open S p \<noteq> None
         \<or> db_Ping S p \<noteq> None
         \<or> (\<exists>e. QueryRow_text S p SelectISRC [SqlText spotifyID] = ScanFailed e)))
   \<and> (snd (GetISRCFromDatabase S p spotifyID) \<noteq> None \<longrightarrow>
        fst (GetISRCFromDatabase S p spotifyID) = '''')"
  by (auto simp: GetISRCFromDatabase_def split: option.splits scan.splits)

theorem GetISRCFromDatabase_not_found_is_not_an_error_witness:
  "sql_Open demo_sqlite ''/music/library.db'' = None
   \<and> db_Ping demo_sqlite ''/music/library.db'' = None
   \<and> QueryRow_text demo_sqlite ''/music/library.db'' SelectISRC
       [SqlText ''0DiWol3AO6WpXZgp0goxAV''] = ErrNoRows
   \<and> GetISRCFromDatabase demo_sqlite ''/music/library.db'' ''0DiWol3AO6WpXZgp0goxAV''
       = ('''', None)
   \<and> GetISRCFromDatabase demo_sqlite '''' ''0DiWol3AO6WpXZgp0goxAV'' = ('''', None)
   \<and> snd (GetISRCFromDatabase demo_sqlite ''/elsewhere.db'' ''0DiWol3AO6WpXZgp0goxAV'') \<noteq> None"
  using GetISRCFromDatabase_not_found_is_not_an_error
          [of demo_sqlite "''0DiWol3AO6WpXZgp0goxAV''" "''/music/library.db''"]
        GetISRCFromDatabase_not_found_is_not_an_error
          [of demo_sqlite "''0DiWol3AO6WpXZgp0goxAV''" "''/elsewhere.db''"]
  by (simp add: demo_sqlite_def)

subsection \<open>Facts about the file system and the call lists\<close>

lemma filter_removes_entry: "map_of (filter (\<lambda>entry. fst entry \<noteq> path) fs) path = None"
  by (induction fs) auto

lemma removeOrWarn_result:
  "removeOrWarn B fs path =
     (if os_Remove_err B path = None then filter (\<lambda>entry. fst entry \<noteq> path) fs else fs)"
  by (auto simp: removeOrWarn_def os_Remove_def split: option.splits)

lemma os_Stat_removed:
  "os_Remove_err B path = None \<Longrightarrow> os_Stat (removeOrWarn B fs path) path = None"
  by (simp add: removeOrWarn_result os_Stat_def filter_removes_entry)

lemma removeOrWarn_refused: "os_Remove_err B path \<noteq> None \<Longrightarrow> removeOrWarn B fs path = fs"
  by (auto simp: removeOrWarn_result)

lemma downloads_append: "downloads (xs @ ys) = downloads xs @ downloads ys"
  by (induction xs rule: downloads.induct) auto

lemma downloads_startCalls: "downloads (startCalls B req) = []"
  by (simp add: startCalls_def)

lemma Download_in_downloads: "Download c f e \<in> set cs \<Longrightarrow> c \<in> set (downloads cs)"
  by (induction cs rule: downloads.induct) auto

subsection \<open>The ways through \<^verbatim>\<open>DownloadTrack\<close>\<close>

lemma attempt_cases:
  obtains (refused) msg e where "selectDownload req = Inl (msg, e)"
      "attempt B fs req itemID earlier =
         \<lparr>response = failedResponse msg '''', failure = Some (Errorf e), disk = fs,
          calls = earlier @ [SetDownloading False]\<rparr>"
  | (failed) c filename e fs' where "selectDownload req = Inr c"
      "download B c req fs = ((filename, Some e), fs')"
      "attempt B fs req itemID earlier =
         \<lparr>response = failedResponse (''Download failed: '' @ Error_msg e) itemID,
          failure = Some e,
          disk = (if filename \<noteq> '''' \<and> \<not> HasPrefix filename ''EXISTS:'' \<and> os_Stat fs' filename \<noteq> None
                  then removeOrWarn B fs' filename else fs'),
          calls = earlier @ [Download c filename (Some e)]
                  @ (if filename \<noteq> '''' \<and> \<not> HasPrefix filename ''EXISTS:'' \<and> os_Stat fs' filename \<noteq> None
                     then [Remove filename] else [])
                  @ [SetDownloading False]\<rparr>"
  | (succeeded) c filename fs' lyrics mark where "selectDownload req = Inr c"
      "download B c req fs = ((filename, None), fs')"
      "Success_dl (response (attempt B fs req itemID earlier))"
      "failure (attempt B fs req itemID earlier) = None"
      "calls (attempt B fs req itemID earlier) =
         earlier @ [Download c filename None] @ lyrics @ [mark, SetDownloading False]"
      "downloads (lyrics @ [mark, SetDownloading False]) = []"
      "\<forall>i m. FailDownloadItem i m \<notin> set (lyrics @ [mark, SetDownloading False])"
proof (cases "selectDownload req")
  case (Inl a)
  then show ?thesis
    by (cases a) (auto simp: attempt_def intro: refused)
next
  case (Inr c)
  obtain filename err fs' where d: "download B c req fs = ((filename, err), fs')"
    by (metis prod.exhaust)
  show ?thesis
  proof (cases err)
    case None
    with Inr d show ?thesis
      by (intro succeeded [of c filename fs'])
         (auto simp: attempt_def Let_def doneResponse_def split: option.splits if_splits)
  next
    case (Some e)
    with Inr d show ?thesis
      by (intro failed [of c filename e fs']) (auto simp: attempt_def Let_def)
  qed
qed

lemma DownloadTrack_cases:
  obtains (rejected) "ISRC request = ''''"
      "DownloadTrack B fs request =
         \<lparr>response = failedResponse ''ISRC is required'' '''',
          failure = Some (Errorf ''ISRC is required''), disk = fs, calls = []\<rparr>"
  | (same_ISRC) existingFile where "ISRC request \<noteq> ''''"
      "CheckISRCExists B fs (OutputDir (withDefaults B request)) (ISRC request) = (existingFile, True)"
      "DownloadTrack B fs request =
         \<lparr>response = doneResponse ''File with same ISRC already exists'' existingFile True
                       (itemID_of B request),
          failure = None, disk = fs,
          calls = startCalls B (withDefaults B request)
                  @ [SkipDownloadItem (itemID_of B request) existingFile, SetDownloading False]\<rparr>"
  | (same_name) path where "ISRC request \<noteq> ''''"
      "snd (CheckISRCExists B fs (OutputDir (withDefaults B request)) (ISRC request)) = False"
      "checkExpectedPath B fs (withDefaults B request) = Keep path"
      "DownloadTrack B fs request =
         \<lparr>response = doneResponse ''File already exists'' path True (itemID_of B request),
          failure = None, disk = fs,
          calls = startCalls B (withDefaults B request)
                  @ [SkipDownloadItem (itemID_of B request) path, SetDownloading False]\<rparr>"
  | (healed) path where "ISRC request \<noteq> ''''"
      "snd (CheckISRCExists B fs (OutputDir (withDefaults B request)) (ISRC request)) = False"
      "checkExpectedPath B fs (withDefaults B request) = Corrupted path"
      "DownloadTrack B fs request =
         attempt B (removeOrWarn B fs path) (withDefaults B request) (itemID_of B request)
           (startCalls B (withDefaults B request) @ [Remove path])"
  | (fresh) "ISRC request \<noteq> ''''"
      "snd (CheckISRCExists B fs (OutputDir (withDefaults B request)) (ISRC request)) = False"
      "checkExpectedPath B fs (withDefaults B request) = Nothing"
      "DownloadTrack B fs request =
         attempt B fs (withDefaults B request) (itemID_of B request)
           (startCalls B (withDefaults B request))"
proof (cases "ISRC request = ''''")
  case True
  then show ?thesis by (auto simp: DownloadTrack_def intro: rejected)
next
  case False
  have id: "itemID_of B (withDefaults B request) = itemID_of B request"
    by (simp add: itemID_of_def withDefaults_def)
  obtain existingFile found where
    c: "CheckISRCExists B fs (OutputDir (withDefaults B request)) (ISRC request) = (existingFile, found)"
    by (metis prod.exhaust)
  have isrc: "ISRC (withDefaults B request) = ISRC request"
    by (simp add: withDefaults_def)
  show ?thesis
  proof (cases found)
    case True
    with False c id isrc show ?thesis
      by (intro same_ISRC [of existingFile]) (simp_all add: DownloadTrack_def Let_def)
  next
    case nf: False
    show ?thesis
    proof (cases "checkExpectedPath B fs (withDefaults B request)")
      case Nothing
      with False c id isrc nf show ?thesis
        by (intro fresh) (simp_all add: DownloadTrack_def Let_def)
    next
      case (Keep path)
      with False c id isrc nf show ?thesis
        by (intro same_name [of path]) (simp_all add: DownloadTrack_def Let_def)
    next
      case (Corrupted path)
      with False c id isrc nf show ?thesis
        by (intro healed [of path]) (simp_all add: DownloadTrack_def Let_def)
    qed
  qed
qed

lemma attempt_failed_download:
  assumes "Download c filename (Some e) \<in> set (calls (attempt B fs req itemID earlier))"
      and "Download c filename (Some e) \<notin> set earlier"
  shows "fst (download B c req fs) = (filename, Some e)
       \<and> failure (attempt B fs req itemID earlier) = Some e
       \<and> \<not> Success_dl (response (attempt B fs req itemID earlier))
       \<and> disk (attempt B fs req itemID earlier) =
           (if filename \<noteq> '''' \<and> \<not> HasPrefix filename ''EXISTS:''
               \<and> os_Stat (snd (download B c req fs)) filename \<noteq> None
            then removeOrWarn B (snd (download B c req fs)) filename
            else snd (download B c req fs))
       \<and> (filename \<noteq> '''' \<and> \<not> HasPrefix filename ''EXISTS:''
            \<and> os_Stat (snd (download B c req fs)) filename \<noteq> None \<longrightarrow>
          Remove filename \<in> set (calls (attempt B fs req itemID earlier)))"
proof (cases rule: attempt_cases [of req B fs itemID earlier])
  case (refused msg e)
  with assms show ?thesis by simp
next
  case (failed c' filename' e' fs')
  with assms have eq: "c' = c" "filename' = filename" "e' = e"
    by (auto split: if_splits)
  from failed(2,3) eq show ?thesis
    by (simp add: failedResponse_def)
next
  case (succeeded c' filename' fs' lyrics mark)
  with assms have "Download c filename (Some e) \<in> set (lyrics @ [mark, SetDownloading False])"
    by auto
  with succeeded(6) show ?thesis
    by (auto dest: Download_in_downloads simp del: set_append)
qed

lemma attempt_selected:
  assumes "selectDownload req = Inr c"
  shows "Download c (fst (fst (download B c req fs))) (snd (fst (download B c req fs)))
           \<in> set (calls (attempt B fs req itemID earlier))"
proof (cases rule: attempt_cases [of req B fs itemID earlier])
  case (refused msg e)
  with assms show ?thesis by simp
next
  case (failed c' filename e fs')
  with assms show ?thesis by simp
next
  case (succeeded c' filename fs' lyrics mark)
  with assms show ?thesis by simp
qed

lemma attempt_not_selected:
  assumes "selectDownload req = Inl m"
  shows "failure (attempt B fs req itemID earlier) \<noteq> None
       \<and> \<not> Success_dl (response (attempt B fs req itemID earlier))
       \<and> disk (attempt B fs req itemID earlier) = fs
       \<and> calls (attempt B fs req itemID earlier) = earlier @ [SetDownloading False]"
  using assms by (cases m) (simp add: attempt_def failedResponse_def)

subsection \<open>Deduplication by ISRC\<close>

text \<open>
  C1. When the request carries an ISRC and the scan of the output directory finds a file
  with that ISRC, \<^verbatim>\<open>DownloadTrack\<close> makes no service download: after the item is started
  the only further calls are \<^verbatim>\<open>SkipDownloadItem\<close> with the path of the existing file and
  the deferred \<^verbatim>\<open>SetDownloading(false)\<close>; the call returns success with
  \<^verbatim>\<open>AlreadyExists\<close> set and that path, a nil error, and an unchanged file system.
\<close>

theorem DownloadTrack_skips_on_ISRC_match:
  assumes "ISRC request \<noteq> ''''"
      and "CheckISRCExists B fs (OutputDir (withDefaults B request)) (ISRC request)
             = (existingFile, True)"
  shows "calls (DownloadTrack B fs request) =
           startCalls B (withDefaults B request)
           @ [SkipDownloadItem (itemID_of B request) existingFile, SetDownloading False]
       \<and> downloads (calls (DownloadTrack B fs request)) = []
       \<and> response (DownloadTrack B fs request) =
           \<lparr>Success_dl = True, Message = ''File with same ISRC already exists'',
            File = existingFile, Error_dl = '''', AlreadyExists = True,
            ItemID_dl = itemID_of B request\<rparr>
       \<and> failure (DownloadTrack B fs request) = None
       \<and> disk (DownloadTrack B fs request) = fs"
  using assms
  by (simp add: DownloadTrack_def Let_def doneResponse_def startCalls_def itemID_of_def
      withDefaults_def)

theorem DownloadTrack_skips_on_ISRC_match_witness:
  "ISRC demo_request \<noteq> ''''
   \<and> CheckISRCExists demo_backend demo_fs (OutputDir (withDefaults demo_backend demo_request))
       (ISRC demo_request) = (''/music/Creep - Radiohead.flac'', True)
   \<and> calls (DownloadTrack demo_backend demo_fs demo_request) =
       [SetDownloading True, StartDownloadItem ''item-1'',
        SkipDownloadItem ''item-1'' ''/music/Creep - Radiohead.flac'', SetDownloading False]
   \<and> Success_dl (response (DownloadTrack demo_backend demo_fs demo_request))
   \<and> AlreadyExists (response (DownloadTrack demo_backend demo_fs demo_request))
   \<and> File (response (DownloadTrack demo_backend demo_fs demo_request))
       = ''/music/Creep - Radiohead.flac''"
proof -
  have h1: "ISRC demo_request \<noteq> ''''"
    by (simp add: demo_request_def)
  have h2: "CheckISRCExists demo_backend demo_fs
              (OutputDir (withDefaults demo_backend demo_request)) (ISRC demo_request)
            = (''/music/Creep - Radiohead.flac'', True)"
    by (simp add: demo_request_def demo_backend_def demo_fs_def withDefaults_def os_Stat_def)
  from DownloadTrack_skips_on_ISRC_match [OF h1 h2] h1 h2 show ?thesis
    by (simp add: startCalls_def itemID_of_def withDefaults_def demo_request_def)
qed

subsection \<open>Cleaning up after a failed download\<close>

text \<open>
  C3, as amended. Whenever a service download made by \<^verbatim>\<open>DownloadTrack\<close> returns an error
  together with a file name (one that does not carry the \<^verbatim>\<open>EXISTS:\<close> marker of a file
  that was there before), the call returns that error with \<^verbatim>\<open>Success\<close> unset. If the
  name is not empty and a file is there after the download, \<^verbatim>\<open>os.Remove\<close> is called on
  it before the return: when the removal goes through no file is left at that name; when
  the operating system refuses it the file stays. So a file is found at the reported name
  on return only after a removal that was tried and refused. If the download reports the
  empty name, or there is no file at the name, nothing is removed and the file system is
  as the download left it.
\<close>

theorem DownloadTrack_failure_tries_to_remove_reported_file:
  assumes "Download c filename (Some e) \<in> set (calls (DownloadTrack B fs request))"
      and "\<not> HasPrefix filename ''EXISTS:''"
  shows "failure (DownloadTrack B fs request) = Some e
       \<and> \<not> Success_dl (response (DownloadTrack B fs request))
       \<and> fst (download B c (withDefaults B request) (beforeDownload B fs request))
           = (filename, Some e)
       \<and> (filename \<noteq> '''' \<and> os_Stat (leftByDownload B fs request c) filename \<noteq> None \<longrightarrow>
            Remove filename \<in> set (calls (DownloadTrack B fs request))
            \<and> disk (DownloadTrack B fs request)
                = removeOrWarn B (leftByDownload B fs request c) filename)
       \<and> (filename = '''' \<or> os_Stat (leftByDownload B fs request c) filename = None \<longrightarrow>
            disk (DownloadTrack B fs request) = leftByDownload B fs request c)
       \<and> (os_Remove_err B filename = None \<longrightarrow>
            os_Stat (disk (DownloadTrack B fs request)) filename = None)
       \<and> (os_Stat (disk (DownloadTrack B fs request)) filename \<noteq> None \<longrightarrow>
            os_Remove_err B filename \<noteq> None
            \<and> Remove filename \<in> set (calls (DownloadTrack B fs request)))"
proof -
  have main: "failure r = Some e \<and> \<not> Success_dl (response r)
       \<and> fst (download B c req pre) = (filename, Some e)
       \<and> (filename \<noteq> '''' \<and> os_Stat (snd (download B c req pre)) filename \<noteq> None \<longrightarrow>
            Remove filename \<in> set (calls r)
            \<and> disk r = removeOrWarn B (snd (download B c req pre)) filename)
       \<and> (filename = '''' \<or> os_Stat (snd (download B c req pre)) filename = None \<longrightarrow>
            disk r = snd (download B c req pre))
       \<and> (os_Remove_err B filename = None \<longrightarrow> os_Stat (disk r) filename = None)
       \<and> (os_Stat (disk r) filename \<noteq> None \<longrightarrow>
            os_Remove_err B filename \<noteq> None \<and> Remove filename \<in> set (calls r))"
    if r: "r = attempt B pre req itemID earlier"
      and inr: "Download c filename (Some e) \<in> set (calls r)"
      and new: "Download c filename (Some e) \<notin> set earlier"
    for r pre req itemID earlier
  proof -
    let ?left = "snd (download B c req pre)"
    from attempt_failed_download [of c filename e B pre req itemID earlier] inr new r assms(2)
    have a: "fst (download B c req pre) = (filename, Some e)" "failure r = Some e"
      "\<not> Success_dl (response r)"
      "disk r = (if filename \<noteq> '''' \<and> os_Stat ?left filename \<noteq> None
                 then removeOrWarn B ?left filename else ?left)"
      "filename \<noteq> '''' \<and> os_Stat ?left filename \<noteq> None \<longrightarrow> Remove filename \<in> set (calls r)"
      by simp_all
    have empty: "os_Stat fs' [] = None" for fs'
      by (simp add: os_Stat_def)
    have gone: "os_Remove_err B filename = None \<longrightarrow> os_Stat (disk r) filename = None"
      using a(4) empty by (auto simp: os_Stat_removed)
    have kept: "os_Stat (disk r) filename \<noteq> None \<longrightarrow>
                os_Remove_err B filename \<noteq> None \<and> Remove filename \<in> set (calls r)"
      using a(4,5) empty gone by (cases "filename = ''''") (auto split: if_splits)
    from a gone kept show ?thesis
      by simp
  qed
  show ?thesis
  proof (cases rule: DownloadTrack_cases [of request B fs])
    case rejected
    with assms show ?thesis by simp
  next
    case (same_ISRC existingFile)
    with assms show ?thesis by (simp add: startCalls_def)
  next
    case (same_name path)
    with assms show ?thesis by (simp add: startCalls_def)
  next
    case (healed path)
    from healed(3) have pre: "beforeDownload B fs request = removeOrWarn B fs path"
      by (simp add: beforeDownload_def)
    have new: "Download c filename (Some e)
                \<notin> set (startCalls B (withDefaults B request) @ [Remove path])"
      by (simp add: startCalls_def)
    from main [OF healed(4) assms(1) new] show ?thesis
      by (simp add: leftByDownload_def pre)
  next
    case fresh
    from fresh(3) have pre: "beforeDownload B fs request = fs"
      by (simp add: beforeDownload_def)
    have new: "Download c filename (Some e) \<notin> set (startCalls B (withDefaults B request))"
      by (simp add: startCalls_def)
    from main [OF fresh(4) assms(1) new] show ?thesis
      by (simp add: leftByDownload_def pre)
  qed
qed

lemma demo_request2_outcome:
  "DownloadTrack demo_backend demo_fs demo_request2 =
     \<lparr>response = failedResponse ''Download failed: unexpected EOF'' ''item-2'',
      failure = Some (Errorf ''unexpected EOF''),
      disk = demo_fs,
      calls = [SetDownloading True, StartDownloadItem ''item-2'',
               Download (Tidal_DownloadWithFallbackAndISRC ''0DiWol3AO6WpXZgp0goxAV''
                           ''GBDUW0000053'')
                 ''/music/partial.flac'' (Some (Errorf ''unexpected EOF'')),
               Remove ''/music/partial.flac'', SetDownloading False]\<rparr>"
  by (simp add: DownloadTrack_def demo_request2_def demo_request_def demo_backend_def
      demo_fs_def withDefaults_def itemID_of_def startCalls_def checkExpectedPath_def
      expectedPath_def os_Stat_def removeOrWarn_def os_Remove_def audioFile_def attempt_def
      selectDownload_def HasPrefix_def Let_def)

lemma demo_refused_outcome:
  "DownloadTrack demo_backend_refusing demo_fs demo_request2 =
     \<lparr>response = failedResponse ''Download failed: unexpected EOF'' ''item-2'',
      failure = Some (Errorf ''unexpected EOF''),
      disk = (''/music/partial.flac'', audioFile 4096) # demo_fs,
      calls = [SetDownloading True, StartDownloadItem ''item-2'',
               Download (Tidal_DownloadWithFallbackAndISRC ''0DiWol3AO6WpXZgp0goxAV''
                           ''GBDUW0000053'')
                 ''/music/partial.flac'' (Some (Errorf ''unexpected EOF'')),
               Remove ''/music/partial.flac'', SetDownloading False]\<rparr>"
  by (simp add: DownloadTrack_def demo_request2_def demo_request_def demo_backend_refusing_def
      demo_backend_def demo_fs_def withDefaults_def itemID_of_def startCalls_def
      checkExpectedPath_def expectedPath_def os_Stat_def removeOrWarn_def os_Remove_def
      audioFile_def attempt_def selectDownload_def HasPrefix_def Let_def)

theorem DownloadTrack_failure_tries_to_remove_reported_file_witness:
  "Download (Tidal_DownloadWithFallbackAndISRC ''0DiWol3AO6WpXZgp0goxAV'' ''GBDUW0000053'')
     ''/music/partial.flac'' (Some (Errorf ''unexpected EOF''))
     \<in> set (calls (DownloadTrack demo_backend demo_fs demo_request2))
   \<and> \<not> HasPrefix ''/music/partial.flac'' ''EXISTS:''
   \<and> os_Remove_err demo_backend ''/music/partial.flac'' = None
   \<and> Remove ''/music/partial.flac'' \<in> set (calls (DownloadTrack demo_backend demo_fs demo_request2))
   \<and> os_Stat (disk (DownloadTrack demo_backend demo_fs demo_request2)) ''/music/partial.flac''
       = None
   \<and> failure (DownloadTrack demo_backend demo_fs demo_request2) = Some (Errorf ''unexpected EOF'')
   \<and> \<not> Success_dl (response (DownloadTrack demo_backend demo_fs demo_request2))"
proof -
  have h1: "Download (Tidal_DownloadWithFallbackAndISRC ''0DiWol3AO6WpXZgp0goxAV''
                        ''GBDUW0000053'')
              ''/music/partial.flac'' (Some (Errorf ''unexpected EOF''))
            \<in> set (calls (DownloadTrack demo_backend demo_fs demo_request2))"
    by (simp add: demo_request2_outcome)
  have h2: "\<not> HasPrefix ''/music/partial.flac'' ''EXISTS:''"
    by (simp add: HasPrefix_def)
  have h3: "os_Remove_err demo_backend ''/music/partial.flac'' = None"
    by (simp add: demo_backend_def)
  have h4: "Remove ''/music/partial.flac''
              \<in> set (calls (DownloadTrack demo_backend demo_fs demo_request2))"
    by (simp add: demo_request2_outcome)
  from DownloadTrack_failure_tries_to_remove_reported_file [OF h1 h2] h1 h2 h3 h4 show ?thesis
    by simp
qed

text \<open>
  The claim as it was stated fails where the operating system refuses the removal: the
  download breaks off, the partial file is reported, \<^verbatim>\<open>os.Remove\<close> is called and fails,
  and the call returns the failure with the partial file still in the output directory.
\<close>

theorem DownloadTrack_partial_file_stays_counterexample:
  "Download (Tidal_DownloadWithFallbackAndISRC ''0DiWol3AO6WpXZgp0goxAV'' ''GBDUW0000053'')
     ''/music/partial.flac'' (Some (Errorf ''unexpected EOF''))
     \<in> set (calls (DownloadTrack demo_backend_refusing demo_fs demo_request2))
   \<and> os_Stat demo_fs ''/music/partial.flac'' = None
   \<and> failure (DownloadTrack demo_backend_refusing demo_fs demo_request2)
       = Some (Errorf ''unexpected EOF'')
   \<and> \<not> Success_dl (response (DownloadTrack demo_backend_refusing demo_fs demo_request2))
   \<and> os_Stat (disk (DownloadTrack demo_backend_refusing demo_fs demo_request2))
       ''/music/partial.flac'' = Some (audioFile 4096)"
  by (simp add: demo_refused_outcome) (simp add: failedResponse_def os_Stat_def demo_fs_def)

subsection \<open>Direct service URL\<close>

lemma withDefaults_keeps [simp]:
  "ISRC (withDefaults B request) = ISRC request"
  "ServiceURL (withDefaults B request) = ServiceURL request"
  "SpotifyID (withDefaults B request) = SpotifyID request"
  "TrackName_req (withDefaults B request) = TrackName_req request"
  "ArtistName (withDefaults B request) = ArtistName request"
  "ItemID (withDefaults B request) = ItemID request"
  by (simp_all add: withDefaults_def)

lemma downloads_attempt:
  "downloads (calls (attempt B fs req itemID earlier)) =
     downloads earlier @ (case selectDownload req of Inl m \<Rightarrow> [] | Inr c \<Rightarrow> [c])"
  by (cases rule: attempt_cases [of req B fs itemID earlier])
     (auto simp: downloads_append)

lemma downloads_DownloadTrack:
  "downloads (calls (DownloadTrack B fs request)) =
     (if ISRC request = ''''
         \<or> snd (CheckISRCExists B fs (OutputDir (withDefaults B request)) (ISRC request))
         \<or> (\<exists>path. checkExpectedPath B fs (withDefaults B request) = Keep path)
      then []
      else case selectDownload (withDefaults B request) of Inl m \<Rightarrow> [] | Inr c \<Rightarrow> [c])"
  by (cases rule: DownloadTrack_cases [of request B fs])
     (auto simp: downloads_append downloads_startCalls downloads_attempt)

lemma selectDownload_call:
  assumes "selectDownload req = Inr c"
  shows "(Service req = ''amazon'' \<or> Service req = ''tidal'' \<longrightarrow>
            (if ServiceURL req \<noteq> '''' then directURL c = Some (ServiceURL req)
             else directURL c = None \<and> SpotifyID req \<noteq> ''''))
       \<and> (Service req \<noteq> ''amazon'' \<and> Service req \<noteq> ''tidal'' \<longrightarrow>
            Service req = ''qobuz'' \<and> (\<exists>quality. c = Qobuz_DownloadByISRC (ISRC req) quality))"
  using assms by (auto simp: selectDownload_def split: if_splits)

lemma selectDownload_direct:
  assumes "ServiceURL req \<noteq> ''''" and "Service req = ''amazon'' \<or> Service req = ''tidal''"
  shows "\<exists>c. selectDownload req = Inr c"
  using assms by (auto simp: selectDownload_def)

text \<open>
  C8, as amended. For the services \<^verbatim>\<open>amazon\<close> and \<^verbatim>\<open>tidal\<close>: every service download
  that \<^verbatim>\<open>DownloadTrack\<close> makes for a request with a direct service URL is a download from
  that URL, and a download by search (by Spotify ID) is made only when no service URL is
  supplied and a Spotify ID is. For \<^verbatim>\<open>qobuz\<close> the download is by ISRC whatever the service
  URL is. A call makes at most one service download; for \<^verbatim>\<open>amazon\<close> and \<^verbatim>\<open>tidal\<close> with
  a service URL it makes exactly one, from the URL, unless the request has no ISRC or one
  of the two existence checks settles it.
\<close>

theorem DownloadTrack_direct_URL_amazon_tidal:
  "(\<forall>c \<in> set (downloads (calls (DownloadTrack B fs request))).
      if Service (withDefaults B request) = ''amazon'' \<or> Service (withDefaults B request) = ''tidal''
      then (if ServiceURL request \<noteq> '''' then directURL c = Some (ServiceURL request)
            else directURL c = None \<and> SpotifyID request \<noteq> '''')
      else Service (withDefaults B request) = ''qobuz''
           \<and> (\<exists>quality. c = Qobuz_DownloadByISRC (ISRC request) quality))
   \<and> length (downloads (calls (DownloadTrack B fs request))) \<le> 1
   \<and> (ISRC request \<noteq> '''' \<longrightarrow> ServiceURL request \<noteq> '''' \<longrightarrow>
      Service (withDefaults B request) = ''amazon'' \<or> Service (withDefaults B request) = ''tidal'' \<longrightarrow>
      \<not> snd (CheckISRCExists B fs (OutputDir (withDefaults B request)) (ISRC request)) \<longrightarrow>
      (\<forall>path. checkExpectedPath B fs (withDefaults B request) \<noteq> Keep path) \<longrightarrow>
      (\<exists>c. downloads (calls (DownloadTrack B fs request)) = [c]
           \<and> directURL c = Some (ServiceURL request)))"
proof (intro conjI ballI impI)
  fix c
  assume "c \<in> set (downloads (calls (DownloadTrack B fs request)))"
  then have "selectDownload (withDefaults B request) = Inr c"
    by (auto simp: downloads_DownloadTrack split: if_splits sum.splits)
  from selectDownload_call [OF this]
  show "if Service (withDefaults B request) = ''amazon'' \<or> Service (withDefaults B request) = ''tidal''
      then (if ServiceURL request \<noteq> '''' then directURL c = Some (ServiceURL request)
            else directURL c = None \<and> SpotifyID request \<noteq> '''')
      else Service (withDefaults B request) = ''qobuz''
           \<and> (\<exists>quality. c = Qobuz_DownloadByISRC (ISRC request) quality)"
    by (auto split: if_splits)
next
  show "length (downloads (calls (DownloadTrack B fs request))) \<le> 1"
    by (simp add: downloads_DownloadTrack split: sum.splits)
next
  assume a: "ISRC request \<noteq> ''''" "ServiceURL request \<noteq> ''''"
    "Service (withDefaults B request) = ''amazon'' \<or> Service (withDefaults B request) = ''tidal''"
    "\<not> snd (CheckISRCExists B fs (OutputDir (withDefaults B request)) (ISRC request))"
    "\<forall>path. checkExpectedPath B fs (withDefaults B request) \<noteq> Keep path"
  from a(2,3) selectDownload_direct [of "withDefaults B request"]
  obtain c where c: "selectDownload (withDefaults B request) = Inr c"
    by auto
  from selectDownload_call [OF c] a(2,3) have "directURL c = Some (ServiceURL request)"
    by auto
  with a c show "\<exists>c. downloads (calls (DownloadTrack B fs request)) = [c]
           \<and> directURL c = Some (ServiceURL request)"
    by (simp add: downloads_DownloadTrack)
qed

lemma demo_request3_outcome:
  "DownloadTrack demo_backend demo_fs demo_request3 =
     \<lparr>response = doneResponse ''Download completed successfully'' ''/music/new.flac'' False
                   ''item-2'',
      failure = None,
      disk = (''/music/new.flac'', audioFile 31457280) # demo_fs,
      calls = [SetDownloading True, StartDownloadItem ''item-2'',
               Download (Tidal_DownloadByURLWithFallback ''https://tidal.com/browse/track/1566'')
                 ''/music/new.flac'' None,
               CompleteDownloadItem ''item-2'' ''/music/new.flac'' 30,
               SetDownloading False]\<rparr>"
  by (simp add: DownloadTrack_def demo_request3_def demo_request2_def demo_request_def
      demo_backend_def demo_fs_def withDefaults_def itemID_of_def startCalls_def
      checkExpectedPath_def expectedPath_def os_Stat_def audioFile_def attempt_def
      selectDownload_def HasPrefix_def TrimPrefix_def Let_def)

lemma demo_request3_qobuz_outcome:
  "calls (DownloadTrack demo_backend demo_fs (demo_request3\<lparr>Service := ''qobuz''\<rparr>)) =
     [SetDownloading True, StartDownloadItem ''item-2'',
      Download (Qobuz_DownloadByISRC ''GBDUW0000053'' ''LOSSLESS'')
        ''/music/partial.flac'' (Some (Errorf ''unexpected EOF'')),
      Remove ''/music/partial.flac'', SetDownloading False]"
  by (simp add: DownloadTrack_def demo_request3_def demo_request2_def demo_request_def
      demo_backend_def demo_fs_def withDefaults_def itemID_of_def startCalls_def
      checkExpectedPath_def expectedPath_def os_Stat_def audioFile_def attempt_def
      selectDownload_def HasPrefix_def TrimPrefix_def Let_def)

theorem DownloadTrack_direct_URL_amazon_tidal_witness:
  "ISRC demo_request3 \<noteq> '''' \<and> ServiceURL demo_request3 \<noteq> ''''
   \<and> Service (withDefaults demo_backend demo_request3) = ''tidal''
   \<and> \<not> snd (CheckISRCExists demo_backend demo_fs
              (OutputDir (withDefaults demo_backend demo_request3)) (ISRC demo_request3))
   \<and> checkExpectedPath demo_backend demo_fs (withDefaults demo_backend demo_request3) = Nothing
   \<and> downloads (calls (DownloadTrack demo_backend demo_fs demo_request3))
       = [Tidal_DownloadByURLWithFallback ''https://tidal.com/browse/track/1566'']
   \<and> directURL (Tidal_DownloadByURLWithFallback ''https://tidal.com/browse/track/1566'')
       = Some (ServiceURL demo_request3)"
  using DownloadTrack_direct_URL_amazon_tidal [of demo_backend demo_fs demo_request3]
  by (simp add: demo_request3_outcome)
     (simp add: demo_request3_def demo_request2_def demo_request_def demo_backend_def
        demo_fs_def withDefaults_def checkExpectedPath_def expectedPath_def os_Stat_def
        audioFile_def)

theorem DownloadTrack_qobuz_ignores_direct_URL_counterexample:
  "ServiceURL (demo_request3\<lparr>Service := ''qobuz''\<rparr>) = ''https://tidal.com/browse/track/1566''
   \<and> downloads (calls (DownloadTrack demo_backend demo_fs (demo_request3\<lparr>Service := ''qobuz''\<rparr>)))
       = [Qobuz_DownloadByISRC ''GBDUW0000053'' ''LOSSLESS'']
   \<and> directURL (Qobuz_DownloadByISRC ''GBDUW0000053'' ''LOSSLESS'') = None"
  by (simp add: demo_request3_qobuz_outcome) (simp add: demo_request3_def)

subsection \<open>Self-healing of the check by file name\<close>

lemma checkExpectedPath_untagged:
  assumes "TrackName_req req \<noteq> ''''" and "ArtistName req \<noteq> ''''"
      and "os_Stat fs (expectedPath B req) = Some fileInfo"
      and "ReadISRCFromFile B fs (expectedPath B req) = (fileISRC, readErr)"
      and "readErr \<noteq> None \<or> fileISRC = ''''"
  shows "checkExpectedPath B fs req =
           (if 100 * 1024 < Size fileInfo then Corrupted (expectedPath B req) else Nothing)"
  using assms by (auto simp: checkExpectedPath_def)

lemma served_selectDownload: "served req \<longleftrightarrow> (\<exists>c. selectDownload req = Inr c)"
  by (auto simp: served_def selectDownload_def)

text \<open>
  C2, as amended. Take a request with an ISRC and track and artist names for which the scan
  by ISRC finds nothing, and a file at the expected path whose embedded identifier cannot
  be read or is empty. If the file is larger than 100 KiB, \<^verbatim>\<open>os.Remove\<close> is called on it:
  when the removal goes through no file is left at the expected path, when the operating
  system refuses it the file stays, and in both cases the request goes on to the service
  switch. If the file has at most 100 KiB (a zero-byte file, say) it is neither removed
  nor reported as existing: the request goes on to the service switch with the file in
  place. The service switch then makes the one service download of the call when the
  service is \<^verbatim>\<open>qobuz\<close>, or \<^verbatim>\<open>amazon\<close> or \<^verbatim>\<open>tidal\<close> with a service URL or a Spotify ID;
  for any other request (an unknown service, or \<^verbatim>\<open>amazon\<close> or \<^verbatim>\<open>tidal\<close> with neither)
  no download is made and the call returns a failure, a file larger than 100 KiB having
  been removed all the same.
\<close>

theorem DownloadTrack_heals_large_corrupt_file:
  assumes "ISRC request \<noteq> ''''"
      and "\<not> snd (CheckISRCExists B fs (OutputDir (withDefaults B request)) (ISRC request))"
      and "TrackName_req request \<noteq> ''''" and "ArtistName request \<noteq> ''''"
      and "os_Stat fs (expectedPath B (withDefaults B request)) = Some fileInfo"
      and "ReadISRCFromFile B fs (expectedPath B (withDefaults B request)) = (fileISRC, readErr)"
      and "readErr \<noteq> None \<or> fileISRC = ''''"
  shows "(100 * 1024 < Size fileInfo \<longrightarrow>
            DownloadTrack B fs request =
              attempt B (removeOrWarn B fs (expectedPath B (withDefaults B request)))
                (withDefaults B request) (itemID_of B request)
                (startCalls B (withDefaults B request)
                 @ [Remove (expectedPath B (withDefaults B request))])
            \<and> Remove (expectedPath B (withDefaults B request))
                \<in> set (calls (DownloadTrack B fs request))
            \<and> beforeDownload B fs request
                = removeOrWarn B fs (expectedPath B (withDefaults B request))
            \<and> (os_Remove_err B (expectedPath B (withDefaults B request)) = None \<longrightarrow>
                 os_Stat (beforeDownload B fs request) (expectedPath B (withDefaults B request))
                   = None)
            \<and> (os_Remove_err B (expectedPath B (withDefaults B request)) \<noteq> None \<longrightarrow>
                 beforeDownload B fs request = fs))
       \<and> (Size fileInfo \<le> 100 * 1024 \<longrightarrow>
            DownloadTrack B fs request =
              attempt B fs (withDefaults B request) (itemID_of B request)
                (startCalls B (withDefaults B request))
            \<and> beforeDownload B fs request = fs)
       \<and> (\<forall>c. selectDownload (withDefaults B request) = Inr c \<longrightarrow>
              downloads (calls (DownloadTrack B fs request)) = [c]
              \<and> Download c
                  (fst (fst (download B c (withDefaults B request) (beforeDownload B fs request))))
                  (snd (fst (download B c (withDefaults B request) (beforeDownload B fs request))))
                  \<in> set (calls (DownloadTrack B fs request)))
       \<and> (served (withDefaults B request) \<longrightarrow>
            (\<exists>c. selectDownload (withDefaults B request) = Inr c))
       \<and> (\<not> served (withDefaults B request) \<longrightarrow>
            downloads (calls (DownloadTrack B fs request)) = []
            \<and> failure (DownloadTrack B fs request) \<noteq> None
            \<and> \<not> Success_dl (response (DownloadTrack B fs request))
            \<and> disk (DownloadTrack B fs request) = beforeDownload B fs request)"
proof -
  let ?p = "expectedPath B (withDefaults B request)"
  let ?req = "withDefaults B request"
  have chk: "checkExpectedPath B fs ?req =
               (if 100 * 1024 < Size fileInfo then Corrupted ?p else Nothing)"
    using assms(3-7) by (intro checkExpectedPath_untagged) simp_all
  have dl: "\<forall>c. selectDownload ?req = Inr c \<longrightarrow>
              downloads (calls (DownloadTrack B fs request)) = [c]"
    using assms(1,2) chk by (simp add: downloads_DownloadTrack)
  have srv: "served ?req \<longrightarrow> (\<exists>c. selectDownload ?req = Inr c)"
    by (simp add: served_selectDownload)
  have nodl: "\<not> served ?req \<longrightarrow> downloads (calls (DownloadTrack B fs request)) = []"
    using assms(1,2) chk
    by (cases "selectDownload ?req") (auto simp: downloads_DownloadTrack served_selectDownload)
  have rest: "(\<forall>c. selectDownload ?req = Inr c \<longrightarrow>
                 Download c (fst (fst (download B c ?req pre)))
                   (snd (fst (download B c ?req pre))) \<in> set (calls r))
            \<and> (\<not> served ?req \<longrightarrow>
                 failure r \<noteq> None \<and> \<not> Success_dl (response r) \<and> disk r = pre)"
    if r: "r = attempt B pre ?req itemID earlier" for r pre itemID earlier
  proof (cases "selectDownload ?req")
    case (Inl m)
    from attempt_not_selected [OF Inl, of B pre itemID earlier] Inl r show ?thesis
      by simp
  next
    case (Inr c)
    from attempt_selected [OF Inr, of B pre itemID earlier] Inr r show ?thesis
      by (auto simp: served_selectDownload)
  qed
  show ?thesis
  proof (cases rule: DownloadTrack_cases [of request B fs])
    case rejected
    with assms(1) show ?thesis by simp
  next
    case (same_ISRC existingFile)
    with assms(2) show ?thesis by simp
  next
    case (same_name path)
    with chk show ?thesis by (simp split: if_splits)
  next
    case (healed path)
    with chk have p: "path = ?p" and big: "100 * 1024 < Size fileInfo"
      by (simp_all split: if_splits)
    from healed(3) p have pre: "beforeDownload B fs request = removeOrWarn B fs ?p"
      by (simp add: beforeDownload_def)
    from healed(4) p
    have r: "DownloadTrack B fs request =
               attempt B (removeOrWarn B fs ?p) ?req (itemID_of B request)
                 (startCalls B ?req @ [Remove ?p])"
      by simp
    have rm: "Remove ?p \<in> set (calls (DownloadTrack B fs request))"
      by (subst r, cases rule: attempt_cases
            [of ?req B "removeOrWarn B fs ?p" "itemID_of B request"
                "startCalls B ?req @ [Remove ?p]"]) simp_all
    have gone: "os_Remove_err B ?p = None \<longrightarrow> os_Stat (removeOrWarn B fs ?p) ?p = None"
      by (simp add: os_Stat_removed)
    have kept: "os_Remove_err B ?p \<noteq> None \<longrightarrow> removeOrWarn B fs ?p = fs"
      by (simp add: removeOrWarn_refused)
    from rest [OF r] r rm gone kept big dl srv nodl show ?thesis
      unfolding pre by simp
  next
    case fresh
    with chk have small: "Size fileInfo \<le> 100 * 1024"
      by (simp split: if_splits)
    from fresh(3) have pre: "beforeDownload B fs request = fs"
      by (simp add: beforeDownload_def)
    from fresh(4)
    have r: "DownloadTrack B fs request =
               attempt B fs ?req (itemID_of B request) (startCalls B ?req)"
      by simp
    from rest [OF r] r small dl srv nodl show ?thesis
      unfolding pre by simp
  qed
qed

lemma demo_untagged_outcome:
  "DownloadTrack demo_backend demo_fs_untagged demo_request3 =
     \<lparr>response = doneResponse ''Download completed successfully'' ''/music/new.flac'' False
                   ''item-2'',
      failure = None,
      disk = [(''/music/new.flac'', audioFile 31457280), (''/music'', folder)],
      calls = [SetDownloading True, StartDownloadItem ''item-2'',
               Remove ''/music/One More Time - Daft Punk.flac'',
               Download (Tidal_DownloadByURLWithFallback ''https://tidal.com/browse/track/1566'')
                 ''/music/new.flac'' None,
               CompleteDownloadItem ''item-2'' ''/music/new.flac'' 30,
               SetDownloading False]\<rparr>"
  by (simp add: DownloadTrack_def demo_request3_def demo_request2_def demo_request_def
      demo_backend_def demo_fs_untagged_def withDefaults_def itemID_of_def startCalls_def
      checkExpectedPath_def expectedPath_def os_Stat_def removeOrWarn_def os_Remove_def
      audioFile_def attempt_def selectDownload_def HasPrefix_def TrimPrefix_def Let_def)

theorem DownloadTrack_heals_large_corrupt_file_witness:
  "ISRC demo_request3 \<noteq> ''''
   \<and> \<not> snd (CheckISRCExists demo_backend demo_fs_untagged
              (OutputDir (withDefaults demo_backend demo_request3)) (ISRC demo_request3))
   \<and> TrackName_req demo_request3 \<noteq> '''' \<and> ArtistName demo_request3 \<noteq> ''''
   \<and> expectedPath demo_backend (withDefaults demo_backend demo_request3)
       = ''/music/One More Time - Daft Punk.flac''
   \<and> os_Stat demo_fs_untagged ''/music/One More Time - Daft Punk.flac''
       = Some (audioFile 5242880)
   \<and> ReadISRCFromFile demo_backend demo_fs_untagged ''/music/One More Time - Daft Punk.flac''
       = ('''', Some (Errorf ''no ISRC tag''))
   \<and> 100 * 1024 < Size (audioFile 5242880)
   \<and> os_Remove_err demo_backend ''/music/One More Time - Daft Punk.flac'' = None
   \<and> served (withDefaults demo_backend demo_request3)
   \<and> Remove ''/music/One More Time - Daft Punk.flac''
       \<in> set (calls (DownloadTrack demo_backend demo_fs_untagged demo_request3))
   \<and> os_Stat (beforeDownload demo_backend demo_fs_untagged demo_request3)
       ''/music/One More Time - Daft Punk.flac'' = None
   \<and> os_Stat (disk (DownloadTrack demo_backend demo_fs_untagged demo_request3))
       ''/music/One More Time - Daft Punk.flac'' = None
   \<and> downloads (calls (DownloadTrack demo_backend demo_fs_untagged demo_request3))
       = [Tidal_DownloadByURLWithFallback ''https://tidal.com/browse/track/1566'']"
proof -
  have p: "expectedPath demo_backend (withDefaults demo_backend demo_request3)
             = ''/music/One More Time - Daft Punk.flac''"
    by (simp add: expectedPath_def demo_backend_def withDefaults_def demo_request3_def
        demo_request2_def demo_request_def)
  have h1: "ISRC demo_request3 \<noteq> ''''"
    and h3: "TrackName_req demo_request3 \<noteq> ''''" and h4: "ArtistName demo_request3 \<noteq> ''''"
    by (simp_all add: demo_request3_def demo_request2_def demo_request_def)
  have h2: "\<not> snd (CheckISRCExists demo_backend demo_fs_untagged
              (OutputDir (withDefaults demo_backend demo_request3)) (ISRC demo_request3))"
    by (simp add: demo_backend_def demo_request3_def demo_request2_def demo_request_def)
  have h5: "os_Stat demo_fs_untagged
              (expectedPath demo_backend (withDefaults demo_backend demo_request3))
            = Some (audioFile 5242880)"
    by (simp add: p) (simp add: demo_fs_untagged_def os_Stat_def)
  have h6: "ReadISRCFromFile demo_backend demo_fs_untagged
              (expectedPath demo_backend (withDefaults demo_backend demo_request3))
            = ('''', Some (Errorf ''no ISRC tag''))"
    by (simp add: p) (simp add: demo_backend_def)
  have h7: "Some (Errorf ''no ISRC tag'') \<noteq> None \<or> '''' = ''''"
    by simp
  have h8: "os_Remove_err demo_backend ''/music/One More Time - Daft Punk.flac'' = None"
    by (simp add: demo_backend_def)
  have h9: "served (withDefaults demo_backend demo_request3)"
    by (simp add: served_def withDefaults_def demo_request3_def demo_request2_def
        demo_request_def)
  have h10: "100 * 1024 < Size (audioFile 5242880)"
    by (simp add: audioFile_def)
  from DownloadTrack_heals_large_corrupt_file [OF h1 h2 h3 h4 h5 h6 h7] h10 h8 p
  have "os_Stat (beforeDownload demo_backend demo_fs_untagged demo_request3)
          ''/music/One More Time - Daft Punk.flac'' = None"
    and "Remove ''/music/One More Time - Daft Punk.flac''
           \<in> set (calls (DownloadTrack demo_backend demo_fs_untagged demo_request3))"
    by auto
  with h1 h2 h3 h4 h5 h6 h8 h9 h10 p show ?thesis
    by (simp add: demo_untagged_outcome) (simp add: os_Stat_def)
qed

theorem DownloadTrack_leaves_empty_file_counterexample:
  "TrackName_req demo_request3 \<noteq> '''' \<and> ArtistName demo_request3 \<noteq> ''''
   \<and> expectedPath demo_backend (withDefaults demo_backend demo_request3)
       = ''/music/One More Time - Daft Punk.flac''
   \<and> os_Stat demo_fs ''/music/One More Time - Daft Punk.flac'' = Some (audioFile 0)
   \<and> ReadISRCFromFile demo_backend demo_fs ''/music/One More Time - Daft Punk.flac''
       = ('''', Some (Errorf ''no ISRC tag''))
   \<and> Remove ''/music/One More Time - Daft Punk.flac''
       \<notin> set (calls (DownloadTrack demo_backend demo_fs demo_request3))
   \<and> os_Stat (disk (DownloadTrack demo_backend demo_fs demo_request3))
       ''/music/One More Time - Daft Punk.flac'' = Some (audioFile 0)"
  by (simp add: demo_request3_outcome)
     (simp add: expectedPath_def demo_backend_def withDefaults_def demo_request3_def
        demo_request2_def demo_request_def demo_fs_def os_Stat_def)

subsection \<open>Exhausting the services\<close>












subsection \<open>Pacing of the cover-art services\<close>

lemma MusicBrainz_read_effects:
  "snd (MusicBrainz_read N resp) = []
   \<or> (\<exists>url. snd (MusicBrainz_read N resp) = [HttpDo ''HEAD'' url])"
  by (cases resp)
     (auto simp: MusicBrainz_read_def Let_def split: sum.splits option.splits prod.splits)

lemma SearchMusicBrainzForCover_effects:
  "snd (SearchMusicBrainzForCover N trackName artistName) = []
   \<or> (\<exists>url rest. snd (SearchMusicBrainzForCover N trackName artistName)
                     = Sleep 1100 # HttpDo ''GET'' url # rest
                   \<and> prefix ''https://musicbrainz.org/'' url
                   \<and> (\<forall>d. Sleep d \<notin> set rest))"
proof -
  have "\<forall>d. Sleep d \<notin> set (snd (MusicBrainz_read N resp))" for resp
    using MusicBrainz_read_effects [of N resp] by auto
  then show ?thesis
    by (auto simp: SearchMusicBrainzForCover_def Let_def split_beta
        split: sum.splits option.splits)
qed

text \<open>
  C9. A search on MusicBrainz either issues no request at all, or it first sleeps for
  1100 milliseconds, which is more than one second, and then sends its \<^verbatim>\<open>GET\<close> request
  to \<^verbatim>\<open>musicbrainz.org\<close>, with no other wait after it; when the track and artist names
  are not empty and the request can be built, the request is issued. The searches on
  iTunes and on Deezer never sleep: under the same conditions their effects consist of the
  single \<^verbatim>\<open>GET\<close> request.
\<close>

theorem MusicBrainz_only_is_paced:
  "(snd (SearchMusicBrainzForCover N trackName artistName) = []
    \<or> (\<exists>url rest. snd (SearchMusicBrainzForCover N trackName artistName)
                      = Sleep 1100 # HttpDo ''GET'' url # rest
                    \<and> prefix ''https://musicbrainz.org/'' url
                    \<and> (\<forall>d. Sleep d \<notin> set rest)))
   \<and> (trackName \<noteq> '''' \<longrightarrow> artistName \<noteq> '''' \<longrightarrow> (\<forall>url. NewRequest N ''GET'' url = None) \<longrightarrow>
        snd (SearchMusicBrainzForCover N trackName artistName) \<noteq> [])
   \<and> (1000::nat) < 1100
   \<and> (\<forall>d. Sleep d \<notin> set (snd (SearchITunesForCover N trackName artistName)))
   \<and> (\<forall>d. Sleep d \<notin> set (snd (SearchDeezerForCover N trackName artistName)))
   \<and> (trackName \<noteq> '''' \<longrightarrow> artistName \<noteq> '''' \<longrightarrow> (\<forall>url. NewRequest N ''GET'' url = None) \<longrightarrow>
        (\<exists>url. snd (SearchITunesForCover N trackName artistName) = [HttpDo ''GET'' url]
               \<and> prefix ''https://itunes.apple.com/'' url)
        \<and> (\<exists>url. snd (SearchDeezerForCover N trackName artistName) = [HttpDo ''GET'' url]
               \<and> prefix ''https://api.deezer.com/'' url))"
proof (intro conjI)
  show "snd (SearchMusicBrainzForCover N trackName artistName) = []
    \<or> (\<exists>url rest. snd (SearchMusicBrainzForCover N trackName artistName)
                      = Sleep 1100 # HttpDo ''GET'' url # rest
                    \<and> prefix ''https://musicbrainz.org/'' url
                    \<and> (\<forall>d. Sleep d \<notin> set rest))"
    by (rule SearchMusicBrainzForCover_effects)
  show "trackName \<noteq> '''' \<longrightarrow> artistName \<noteq> '''' \<longrightarrow> (\<forall>url. NewRequest N ''GET'' url = None) \<longrightarrow>
        snd (SearchMusicBrainzForCover N trackName artistName) \<noteq> []"
    by (auto simp: SearchMusicBrainzForCover_def Let_def split_beta split: sum.splits)
  show "(1000::nat) < 1100"
    by simp
  show "\<forall>d. Sleep d \<notin> set (snd (SearchITunesForCover N trackName artistName))"
    by (auto simp: SearchITunesForCover_def Let_def split: sum.splits option.splits)
  show "\<forall>d. Sleep d \<notin> set (snd (SearchDeezerForCover N trackName artistName))"
    by (auto simp: SearchDeezerForCover_def Let_def split: sum.splits option.splits)
  show "trackName \<noteq> '''' \<longrightarrow> artistName \<noteq> '''' \<longrightarrow> (\<forall>url. NewRequest N ''GET'' url = None) \<longrightarrow>
        (\<exists>url. snd (SearchITunesForCover N trackName artistName) = [HttpDo ''GET'' url]
               \<and> prefix ''https://itunes.apple.com/'' url)
        \<and> (\<exists>url. snd (SearchDeezerForCover N trackName artistName) = [HttpDo ''GET'' url]
               \<and> prefix ''https://api.deezer.com/'' url)"
    by (auto simp: SearchITunesForCover_def SearchDeezerForCover_def Let_def split: sum.splits)
qed

theorem MusicBrainz_only_is_paced_witness:
  "''One More Time'' \<noteq> '''' \<and> ''Daft Punk'' \<noteq> ''''
   \<and> (\<forall>url. NewRequest demo_network ''GET'' url = None)
   \<and> (\<exists>url rest. snd (SearchMusicBrainzForCover demo_network ''One More Time'' ''Daft Punk'')
                    = Sleep 1100 # HttpDo ''GET'' url # rest)
   \<and> (\<exists>url. snd (SearchITunesForCover demo_network ''One More Time'' ''Daft Punk'')
              = [HttpDo ''GET'' url])
   \<and> (\<exists>url. snd (SearchDeezerForCover demo_network ''One More Time'' ''Daft Punk'')
              = [HttpDo ''GET'' url])"
proof -
  have h: "\<forall>url. NewRequest demo_network ''GET'' url = None"
    by (simp add: demo_network_def)
  from MusicBrainz_only_is_paced [of demo_network "''One More Time''" "''Daft Punk''"] h
  show ?thesis
    by auto
qed

subsection \<open>Order of the cover sources\<close>
























subsection \<open>Metadata from the file name\<close>

lemma filenameFallback_keeps_tags:
  "Title m \<noteq> '''' \<Longrightarrow> Title (filenameFallback path m) = Title m"
  "Artist m \<noteq> '''' \<Longrightarrow> Artist (filenameFallback path m) = Artist m"
  "Title m \<noteq> '''' \<Longrightarrow> Artist m \<noteq> '''' \<Longrightarrow> filenameFallback path m = m"
  by (simp_all add: filenameFallback_def Let_def)

lemma demo_Base: "Base ''/music/Daft Punk - One More Time.flac'' = ''Daft Punk - One More Time.flac''"
  by (simp add: Base_def)

lemma demo_stem:
  "TrimSuffix ''Daft Punk - One More Time.flac'' (Ext ''Daft Punk - One More Time.flac'')
     = ''Daft Punk - One More Time''"
  by (simp add: Ext_def TrimSuffix_def HasSuffix_def)

text \<open>
  C6. The file \<^verbatim>\<open>Daft Punk - One More Time.flac\<close> without title and artist tags: the
  fallback of the repair pass takes the segment before the separator as the title and the
  segment after it as the artist, the reverse of the \<^verbatim>\<open>Artist - Title\<close> pattern; the M4A
  reader of the same file takes the same name the other way round.
\<close>

theorem filenameFallback_reads_title_before_artist:
  "filenameFallback ''/music/Daft Punk - One More Time.flac'' emptyMetadata
     = emptyMetadata\<lparr>Title := ''Daft Punk'', Artist := ''One More Time''\<rparr>
   \<and> extractMetadataFromM4A ''/music/Daft Punk - One More Time.m4a''
     = Inr (emptyMetadata\<lparr>Artist := ''Daft Punk'', Title := ''One More Time''\<rparr>)"
proof
  show "filenameFallback ''/music/Daft Punk - One More Time.flac'' emptyMetadata
     = emptyMetadata\<lparr>Title := ''Daft Punk'', Artist := ''One More Time''\<rparr>"
    by (simp add: filenameFallback_def demo_Base demo_stem emptyMetadata_def Contains_def
        SplitN2_def TrimSpace_def isSpace_def Let_def)
  have b: "Base ''/music/Daft Punk - One More Time.m4a'' = ''Daft Punk - One More Time.m4a''"
    by (simp add: Base_def)
  have s: "TrimSuffix ''Daft Punk - One More Time.m4a'' (Ext ''Daft Punk - One More Time.m4a'')
             = ''Daft Punk - One More Time''"
    by (simp add: Ext_def TrimSuffix_def HasSuffix_def)
  have sp: "Split ''Daft Punk - One More Time'' '' - '' = [''Daft Punk'', ''One More Time'']"
    by (simp add: Split.simps)
  show "extractMetadataFromM4A ''/music/Daft Punk - One More Time.m4a''
     = Inr (emptyMetadata\<lparr>Artist := ''Daft Punk'', Title := ''One More Time''\<rparr>)"
    by (simp add: extractMetadataFromM4A_def b s sp emptyMetadata_def TrimSpace_def isSpace_def
        Let_def)
qed

subsection \<open>The scan of the library\<close>

lemma collectAudio_files:
  "collectAudio entries acc = Inr files \<Longrightarrow>
   files = acc @ map fst (filter (\<lambda>e. \<not> IsDir (snd e) \<and> isAudioFile (fst e)) entries)"
proof (induction entries arbitrary: acc)
  case Nil
  then show ?case by simp
next
  case (Cons entry entries)
  obtain path info where e: "entry = (path, info)"
    by (cases entry)
  from Cons.prems e have ok: "WalkErr info = None"
    by (auto split: option.splits)
  show ?case
  proof (cases "\<not> IsDir info \<and> isAudioFile path")
    case True
    with Cons.prems e ok have "collectAudio entries (acc @ [path]) = Inr files"
      by simp
    from Cons.IH [OF this] True e show ?thesis
      by simp
  next
    case False
    with Cons.prems e ok have "collectAudio entries acc = Inr files"
      by auto
    from Cons.IH [OF this] False e show ?thesis
      by auto
  qed
qed

lemma firstExisting_found:
  "firstExisting fs p1 p2 \<noteq> '''' \<longleftrightarrow> os_Stat fs p1 \<noteq> None \<or> os_Stat fs p2 \<noteq> None"
  by (auto simp: firstExisting_def os_Stat_def)

lemma checkCover_result:
  "checkCover fs p (t, r) =
     (if hasSibling fs p ''.jpg'' ''.png''
      then (t\<lparr>HasCover := True,
               CoverPath := firstExisting fs (TrimSuffix p (Ext p) @ ''.jpg'')
                              (TrimSuffix p (Ext p) @ ''.png'')\<rparr>,
            r\<lparr>TracksWithCover := TracksWithCover r + 1\<rparr>)
      else (t\<lparr>MissingCover := True\<rparr>, r\<lparr>MissingCovers := MissingCovers r + 1\<rparr>))"
  using firstExisting_found [of fs "TrimSuffix p (Ext p) @ ''.jpg''" "TrimSuffix p (Ext p) @ ''.png''"]
  by (simp add: checkCover_def hasSibling_def Let_def)

lemma checkLyrics_result:
  "checkLyrics fs p (t, r) =
     (if hasSibling fs p ''.lrc'' ''.txt''
      then (t\<lparr>HasLyrics := True,
               LyricsPath := firstExisting fs (TrimSuffix p (Ext p) @ ''.lrc'')
                               (TrimSuffix p (Ext p) @ ''.txt'')\<rparr>,
            r\<lparr>TracksWithLyrics := TracksWithLyrics r + 1\<rparr>)
      else (t\<lparr>MissingLyrics := True\<rparr>, r\<lparr>MissingLyrics_n := MissingLyrics_n r + 1\<rparr>))"
  using firstExisting_found [of fs "TrimSuffix p (Ext p) @ ''.lrc''" "TrimSuffix p (Ext p) @ ''.txt''"]
  by (simp add: checkLyrics_def hasSibling_def Let_def)

text \<open>One round of the scan loop adds one track record and keeps the counters in step.\<close>

lemma checkFile_step:
  assumes "counted r (Tracks r)"
  shows "\<exists>t. Tracks (checkFile fs req p r) = Tracks r @ [t]
             \<and> FilePath t = p \<and> scanned fs req t
             \<and> counted (checkFile fs req p r) (Tracks r @ [t])
             \<and> TotalTracks (checkFile fs req p r) = TotalTracks r
             \<and> CoversDownloaded (checkFile fs req p r) = CoversDownloaded r"
  using assms
  by (cases "CheckCovers req"; cases "CheckLyrics req";
      cases "hasSibling fs p ''.jpg'' ''.png''"; cases "hasSibling fs p ''.lrc'' ''.txt''")
     (simp_all add: checkFile_def checkCover_result checkLyrics_result newTrack_def
        scanned_def counted_def Let_def)

lemma scanLoop_result:
  assumes "counted r (Tracks r)" and "\<forall>t \<in> set (Tracks r). scanned fs req t"
  shows "map FilePath (Tracks (scanLoop fs req files r)) = map FilePath (Tracks r) @ files
       \<and> (\<forall>t \<in> set (Tracks (scanLoop fs req files r)). scanned fs req t)
       \<and> counted (scanLoop fs req files r) (Tracks (scanLoop fs req files r))
       \<and> TotalTracks (scanLoop fs req files r) = TotalTracks r"
  using assms
proof (induction files arbitrary: r)
  case Nil
  then show ?case by simp
next
  case (Cons p files)
  from checkFile_step [OF Cons.prems(1), of fs req p] obtain t where
    t: "Tracks (checkFile fs req p r) = Tracks r @ [t]" "FilePath t = p" "scanned fs req t"
       "counted (checkFile fs req p r) (Tracks r @ [t])"
       "TotalTracks (checkFile fs req p r) = TotalTracks r"
    by blast
  from t(1,4) have c: "counted (checkFile fs req p r) (Tracks (checkFile fs req p r))"
    by simp
  from t(1,3) Cons.prems(2) have s: "\<forall>t \<in> set (Tracks (checkFile fs req p r)). scanned fs req t"
    by simp
  from Cons.IH [OF c s] t show ?case
    by simp
qed

lemma repairAll_sameScan:
  assumes "\<And>t. sameScan t (fst (fst (worker t)))"
  shows "list_all2 sameScan tracks (fst (fst (repairAll missing worker tracks)))"
proof (induction tracks)
  case Nil
  then show ?case by simp
next
  case (Cons t tracks)
  have self: "sameScan t t"
    by (simp add: sameScan_def)
  from Cons assms [of t] self show ?case
    by (simp add: split_beta)
qed

lemma repairCover_sameScan: "sameScan t (fst (fst (repairCover B req t)))"
  by (simp add: repairCover_def sameScan_def Let_def split_beta split: sum.splits option.splits)

lemma repairLyrics_sameScan: "sameScan t (fst (fst (repairLyrics B t)))"
  by (simp add: repairLyrics_def sameScan_def Let_def split_beta split: sum.splits option.splits)

lemma sameScan_kept:
  assumes "list_all2 sameScan ts ts'"
  shows "map FilePath ts' = map FilePath ts
       \<and> ((\<forall>t \<in> set ts. scanned fs req t) \<longrightarrow> (\<forall>t \<in> set ts'. scanned fs req t))
       \<and> length (filter HasCover ts') = length (filter HasCover ts)
       \<and> length (filter MissingCover ts') = length (filter MissingCover ts)
       \<and> length (filter HasLyrics ts') = length (filter HasLyrics ts)
       \<and> length (filter MissingLyrics ts') = length (filter MissingLyrics ts)"
  using assms
proof (induction rule: list_all2_induct)
  case Nil
  then show ?case by simp
next
  case (Cons t ts t' ts')
  from Cons(1) have f: "FilePath t' = FilePath t" "HasCover t' = HasCover t"
    "MissingCover t' = MissingCover t" "HasLyrics t' = HasLyrics t"
    "MissingLyrics t' = MissingLyrics t"
    by (simp_all add: sameScan_def)
  then have s: "scanned fs req t' = scanned fs req t"
    by (simp add: scanned_def)
  from Cons(3) f s show ?case
    by simp
qed

lemma counted_sameScan:
  assumes "list_all2 sameScan ts ts'" and "counted r ts"
    and "TracksWithCover r' = TracksWithCover r" and "MissingCovers r' = MissingCovers r"
    and "TracksWithLyrics r' = TracksWithLyrics r" and "MissingLyrics_n r' = MissingLyrics_n r"
  shows "counted r' ts'"
  using sameScan_kept [OF assms(1)] assms(2-)
  by (simp add: counted_def)

lemma sameScan_refl: "list_all2 sameScan ts ts"
  by (simp add: list_all2_same sameScan_def)

text \<open>
  C7. When \<^verbatim>\<open>VerifyLibrary\<close> returns without error, the tracks of the response are, in
  order, exactly the entries of the file system under the scan path that are not
  directories and whose extension, in lower case, is \<^verbatim>\<open>.mp3\<close>, \<^verbatim>\<open>.flac\<close> or
  \<^verbatim>\<open>.m4a\<close>, and \<^verbatim>\<open>TotalTracks\<close> is their number. With cover checking every track has
  \<^verbatim>\<open>HasCover\<close> exactly when a sibling \<^verbatim>\<open>.jpg\<close> or \<^verbatim>\<open>.png\<close> exists and \<^verbatim>\<open>MissingCover\<close>
  exactly when none does; \<^verbatim>\<open>TracksWithCover\<close> and \<^verbatim>\<open>MissingCovers\<close> count these tracks
  and add up to \<^verbatim>\<open>TotalTracks\<close>. The same holds for lyrics with \<^verbatim>\<open>.lrc\<close> and
  \<^verbatim>\<open>.txt\<close>. Without the respective check the flags are unset and the counters zero.
\<close>

theorem VerifyLibrary_counts:
  assumes "VerifyLibrary B fs req = ((resp, None), effects)"
  shows "map FilePath (Tracks resp) =
           map fst (filter (\<lambda>e. under (NormalizePath B (ScanPath req)) (fst e)
                                 \<and> \<not> IsDir (snd e) \<and> isAudioFile (fst e)) fs)
       \<and> TotalTracks resp = int (length (Tracks resp))
       \<and> (\<forall>t \<in> set (Tracks resp).
            HasCover t = (CheckCovers req \<and> hasSibling fs (FilePath t) ''.jpg'' ''.png'')
            \<and> MissingCover t = (CheckCovers req \<and> \<not> hasSibling fs (FilePath t) ''.jpg'' ''.png'')
            \<and> HasLyrics t = (CheckLyrics req \<and> hasSibling fs (FilePath t) ''.lrc'' ''.txt'')
            \<and> MissingLyrics t = (CheckLyrics req \<and> \<not> hasSibling fs (FilePath t) ''.lrc'' ''.txt''))
       \<and> TracksWithCover resp = int (length (filter HasCover (Tracks resp)))
       \<and> MissingCovers resp = int (length (filter MissingCover (Tracks resp)))
       \<and> TracksWithLyrics resp = int (length (filter HasLyrics (Tracks resp)))
       \<and> MissingLyrics_n resp = int (length (filter MissingLyrics (Tracks resp)))
       \<and> (CheckCovers req \<longrightarrow> TracksWithCover resp + MissingCovers resp = TotalTracks resp)
       \<and> (CheckLyrics req \<longrightarrow> TracksWithLyrics resp + MissingLyrics_n resp = TotalTracks resp)"
proof -
  define scanPath where "scanPath = NormalizePath B (ScanPath req)"
  from assms obtain audioFiles where
    walk: "collectAudio (Walk fs scanPath) [] = Inr audioFiles"
    by (auto simp: VerifyLibrary_def scanPath_def Let_def split: if_splits sum.splits)
  define start where "start = (newResponse True '''')\<lparr>TotalTracks := int (length audioFiles)\<rparr>"
  define sc where "sc = scanLoop fs req audioFiles start"
  define tc where "tc = fst (fst (repairAll MissingCover (repairCover B req) (Tracks sc)))"
  define wc where "wc = (if DownloadMissing req \<and> MissingCovers sc > 0
     then sc\<lparr>Tracks := tc,
             CoversDownloaded := CoversDownloaded sc
               + snd (fst (repairAll MissingCover (repairCover B req) (Tracks sc)))\<rparr>
     else sc)"
  define tl where "tl = fst (fst (repairAll MissingLyrics (repairLyrics B) (Tracks wc)))"
  define wl where "wl = (if DownloadMissing req \<and> MissingLyrics_n wc > 0
     then wc\<lparr>Tracks := tl,
             LyricsDownloaded_n := LyricsDownloaded_n wc
               + snd (fst (repairAll MissingLyrics (repairLyrics B) (Tracks wc)))\<rparr>
     else wc)"
  from assms walk have resp: "resp = wl"
    unfolding VerifyLibrary_def wl_def tl_def wc_def tc_def sc_def start_def
    by (auto simp: scanPath_def Let_def split_beta split: if_splits)
  have files: "audioFiles =
      map fst (filter (\<lambda>e. under scanPath (fst e) \<and> \<not> IsDir (snd e) \<and> isAudioFile (fst e)) fs)"
    using collectAudio_files [OF walk] by (simp add: Walk_def conj_commute conj_left_commute)
  have "counted start (Tracks start)" "\<forall>t \<in> set (Tracks start). scanned fs req t"
    "Tracks start = []" "TotalTracks start = int (length audioFiles)"
    by (simp_all add: start_def newResponse_def counted_def)
  with scanLoop_result [of start fs req audioFiles]
  have sc: "map FilePath (Tracks sc) = audioFiles" "\<forall>t \<in> set (Tracks sc). scanned fs req t"
    "counted sc (Tracks sc)" "TotalTracks sc = int (length audioFiles)"
    by (simp_all add: sc_def)
  have "list_all2 sameScan (Tracks sc) tc"
    unfolding tc_def by (rule repairAll_sameScan) (rule repairCover_sameScan)
  then have l1: "list_all2 sameScan (Tracks sc) (Tracks wc)"
    by (simp add: wc_def sameScan_refl)
  have c1: "TracksWithCover wc = TracksWithCover sc" "MissingCovers wc = MissingCovers sc"
    "TracksWithLyrics wc = TracksWithLyrics sc" "MissingLyrics_n wc = MissingLyrics_n sc"
    "TotalTracks wc = TotalTracks sc"
    by (simp_all add: wc_def)
  have "list_all2 sameScan (Tracks wc) tl"
    unfolding tl_def by (rule repairAll_sameScan) (rule repairLyrics_sameScan)
  then have l2: "list_all2 sameScan (Tracks wc) (Tracks wl)"
    by (simp add: wl_def sameScan_refl)
  have c2: "TracksWithCover wl = TracksWithCover wc" "MissingCovers wl = MissingCovers wc"
    "TracksWithLyrics wl = TracksWithLyrics wc" "MissingLyrics_n wl = MissingLyrics_n wc"
    "TotalTracks wl = TotalTracks wc"
    by (simp_all add: wl_def)
  from sameScan_kept [OF l1, of fs req] sc
  have wc: "map FilePath (Tracks wc) = audioFiles" "\<forall>t \<in> set (Tracks wc). scanned fs req t"
    by simp_all
  from counted_sameScan [OF l1 sc(3)] c1 have cwc: "counted wc (Tracks wc)"
    by simp
  from sameScan_kept [OF l2, of fs req] wc
  have wl: "map FilePath (Tracks wl) = audioFiles" "\<forall>t \<in> set (Tracks wl). scanned fs req t"
    by simp_all
  from counted_sameScan [OF l2 cwc] c2 have cwl: "counted wl (Tracks wl)"
    by simp
  from wl(1) have len: "length (Tracks wl) = length audioFiles"
    by (metis length_map)
  have total: "TotalTracks wl = int (length (Tracks wl))"
    using c1(5) c2(5) sc(4) len by simp
  have part: "length (filter P ts) + length (filter Q ts) = length ts"
    if "\<forall>t \<in> set ts. Q t = (\<not> P t)" for P Q :: "TrackVerificationResult \<Rightarrow> bool" and ts
    using that by (induction ts) auto
  have covers: "CheckCovers req \<longrightarrow>
                length (filter HasCover (Tracks wl)) + length (filter MissingCover (Tracks wl))
                = length (Tracks wl)"
    using wl(2) by (auto intro!: part simp: scanned_def)
  have lyrics: "CheckLyrics req \<longrightarrow>
                length (filter HasLyrics (Tracks wl)) + length (filter MissingLyrics (Tracks wl))
                = length (Tracks wl)"
    using wl(2) by (auto intro!: part simp: scanned_def)
  from covers lyrics have sums:
    "CheckCovers req \<longrightarrow>
       int (length (filter HasCover (Tracks wl))) + int (length (filter MissingCover (Tracks wl)))
       = int (length (Tracks wl))"
    "CheckLyrics req \<longrightarrow>
       int (length (filter HasLyrics (Tracks wl))) + int (length (filter MissingLyrics (Tracks wl)))
       = int (length (Tracks wl))"
    by (simp_all only: of_nat_add [symmetric] of_nat_eq_iff)
  from wl files total cwl sums show ?thesis
    unfolding resp scanPath_def [symmetric]
    by (simp add: scanned_def counted_def)
qed

lemma demo_isAudioFile:
  "isAudioFile ''/music/Creep - Radiohead.flac''"
  "\<not> isAudioFile ''/music/Creep - Radiohead.jpg''"
  "isAudioFile ''/music/One More Time - Daft Punk.flac''"
  "isAudioFile ''/music/live/Karma Police - Radiohead.MP3''"
  "\<not> isAudioFile ''/music/live/Karma Police - Radiohead.lrc''"
  "\<not> isAudioFile ''/music/live/setlist.txt''"
  by (simp_all add: isAudioFile_def Ext_def ToLower_def lower_char_def)

lemma demo_audio_entries:
  "map fst (filter (\<lambda>e. under ''/music'' (fst e) \<and> \<not> IsDir (snd e) \<and> isAudioFile (fst e)) demo_fs)
     = [''/music/Creep - Radiohead.flac'', ''/music/One More Time - Daft Punk.flac'',
        ''/music/live/Karma Police - Radiohead.MP3'']"
  by (simp add: demo_fs_def demo_isAudioFile audioFile_def folder_def under_def)

lemma demo_scan_succeeds: "snd (fst (VerifyLibrary demo_backend demo_fs demo_scan)) = None"
proof -
  have w: "Walk demo_fs ''/music'' = demo_fs"
    by (simp add: Walk_def under_def demo_fs_def)
  have c: "collectAudio demo_fs [] =
             Inr [''/music/Creep - Radiohead.flac'', ''/music/One More Time - Daft Punk.flac'',
                  ''/music/live/Karma Police - Radiohead.MP3'']"
    by (simp add: demo_fs_def demo_isAudioFile audioFile_def folder_def)
  have s: "os_Stat demo_fs ''/music'' \<noteq> None"
    by (simp add: os_Stat_def demo_fs_def)
  have p: "NormalizePath demo_backend (ScanPath demo_scan) = ''/music''"
    and d: "\<not> DownloadMissing demo_scan"
    by (simp_all add: demo_backend_def demo_scan_def demo_verify_def)
  show ?thesis
    unfolding VerifyLibrary_def p Let_def w c
    using s d by (simp add: split_beta)
qed

theorem VerifyLibrary_counts_witness:
  "VerifyLibrary demo_backend demo_fs demo_scan =
     ((fst (fst (VerifyLibrary demo_backend demo_fs demo_scan)), None),
      snd (VerifyLibrary demo_backend demo_fs demo_scan))
   \<and> CheckCovers demo_scan \<and> CheckLyrics demo_scan
   \<and> map FilePath (Tracks (fst (fst (VerifyLibrary demo_backend demo_fs demo_scan)))) =
       [''/music/Creep - Radiohead.flac'', ''/music/One More Time - Daft Punk.flac'',
        ''/music/live/Karma Police - Radiohead.MP3'']
   \<and> TotalTracks (fst (fst (VerifyLibrary demo_backend demo_fs demo_scan))) = 3
   \<and> TracksWithCover (fst (fst (VerifyLibrary demo_backend demo_fs demo_scan)))
       + MissingCovers (fst (fst (VerifyLibrary demo_backend demo_fs demo_scan))) = 3
   \<and> TracksWithLyrics (fst (fst (VerifyLibrary demo_backend demo_fs demo_scan)))
       + MissingLyrics_n (fst (fst (VerifyLibrary demo_backend demo_fs demo_scan))) = 3"
proof -
  have h: "VerifyLibrary demo_backend demo_fs demo_scan =
     ((fst (fst (VerifyLibrary demo_backend demo_fs demo_scan)), None),
      snd (VerifyLibrary demo_backend demo_fs demo_scan))"
    using demo_scan_succeeds by (simp add: prod_eq_iff)
  have p: "NormalizePath demo_backend (ScanPath demo_scan) = ''/music''"
    and c: "CheckCovers demo_scan" "CheckLyrics demo_scan"
    by (simp_all add: demo_backend_def demo_scan_def demo_verify_def)
  have n: "TotalTracks r = int (length (Tracks r)) \<Longrightarrow> map FilePath (Tracks r) = [a, b, d] \<Longrightarrow>
           TotalTracks r = 3" for r :: LibraryVerificationResponse and a b d
    by (metis length_map length_Cons list.size(3) of_nat_numeral numeral_3_eq_3)
  from VerifyLibrary_counts [OF h] p c h show ?thesis
    by (auto simp: demo_audio_entries dest: n)
qed

end
